theory Spec2Isabelle
  imports Main
begin

section \<open>JavaScript values\<close>

text \<open>
  The client handles untyped JSON: response bodies, the medical profile, file rows and
  the user object are plain JavaScript values. They are modelled by one datatype.
  Numbers are restricted to integers. An object is the list of its own properties in
  the order in which \<^verbatim>\<open>Object.keys\<close> and \<^verbatim>\<open>JSON.stringify\<close> enumerate them; a
  well-formed object has distinct keys. Strings are byte lists.
\<close>

datatype js_value =
    JUndefined
  | JNull
  | JBool bool
  | JNum int
  | JStr string
  | JArr "js_value list"
  | JObj "(string \<times> js_value) list"

datatype error_name = Error | TypeError | SyntaxError

text \<open>A thrown value: every value the client throws or catches is an Error object.\<close>

datatype js_error = Thrown (name: error_name) (message: string)

text \<open>Truthiness, as used by \<^verbatim>\<open>!x\<close>, \<^verbatim>\<open>a || b\<close> and \<^verbatim>\<open>Boolean(x)\<close>.\<close>

fun truthy :: "js_value \<Rightarrow> bool" where
  "truthy JUndefined = False"
| "truthy JNull = False"
| "truthy (JBool b) = b"
| "truthy (JNum n) = (n \<noteq> 0)"
| "truthy (JStr s) = (s \<noteq> [])"
| "truthy (JArr xs) = True"
| "truthy (JObj kvs) = True"

text \<open>\<^verbatim>\<open>a || b\<close>\<close>

definition or_else :: "js_value \<Rightarrow> js_value \<Rightarrow> js_value" where
  "or_else a b = (if truthy a then a else b)"

fun join :: "string \<Rightarrow> string list \<Rightarrow> string" where
  "join sep [] = []"
| "join sep [x] = x"
| "join sep (x # y # ys) = x @ sep @ join sep (y # ys)"

function dec :: "nat \<Rightarrow> string" where
  "dec n = (if n < 10 then [''0123456789'' ! n] else dec (n div 10) @ [''0123456789'' ! (n mod 10)])"
  by pat_completeness auto
termination
  by (relation "measure id") auto

definition show_int :: "int \<Rightarrow> string" where
  "show_int i = (if i < 0 then CHR ''-'' # dec (nat (- i)) else dec (nat i))"

text \<open>
  String conversion, as performed by template literals, \<^verbatim>\<open>new Error(v)\<close> and
  \<^verbatim>\<open>localStorage.setItem\<close>.
\<close>

fun ToString :: "js_value \<Rightarrow> string" where
  "ToString JUndefined = ''undefined''"
| "ToString JNull = ''null''"
| "ToString (JBool b) = (if b then ''true'' else ''false'')"
| "ToString (JNum n) = show_int n"
| "ToString (JStr s) = s"
| "ToString (JArr xs) =
     join '','' (map (\<lambda>x. if x = JNull \<or> x = JUndefined then [] else ToString x) xs)"
| "ToString (JObj kvs) = ''[object Object]''"

text \<open>
  Reading an own property. \<open>own v k\<close> is \<^verbatim>\<open>v?.k\<close>: undefined when \<open>v\<close> is null or
  undefined or has no such property. The client only reads keys that no built-in
  prototype defines (\<^verbatim>\<open>detail\<close>, \<^verbatim>\<open>error\<close>, \<^verbatim>\<open>access_token\<close>, \<^verbatim>\<open>email\<close>, \<^verbatim>\<open>reply\<close>,
  \<^verbatim>\<open>status\<close>, \<^verbatim>\<open>id\<close>), so inherited properties are left out.
\<close>

fun own :: "js_value \<Rightarrow> string \<Rightarrow> js_value" where
  "own (JObj kvs) k = (case map_of kvs k of Some v \<Rightarrow> v | None \<Rightarrow> JUndefined)"
| "own v k = JUndefined"

text \<open>\<^verbatim>\<open>v.k\<close>: a TypeError when \<open>v\<close> is null or undefined (the text is the engine's).\<close>

definition null_deref :: js_error where
  "null_deref = Thrown TypeError ''Cannot read properties of null''"

fun get_prop :: "js_value \<Rightarrow> string \<Rightarrow> js_error + js_value" where
  "get_prop JUndefined k = Inl null_deref"
| "get_prop JNull k = Inl null_deref"
| "get_prop v k = Inr (own v k)"

text \<open>\<^verbatim>\<open>typeof v === 'string'\<close>\<close>

fun is_string :: "js_value \<Rightarrow> bool" where
  "is_string (JStr s) = True"
| "is_string v = False"

subsection \<open>JSON.stringify\<close>

definition hex_digit :: "nat \<Rightarrow> char" where
  "hex_digit d = ''0123456789abcdef'' ! d"

definition escape_char :: "char \<Rightarrow> string" where
  "escape_char c =
     (if c = CHR 0x22 then [CHR 0x5C, CHR 0x22]
      else if c = CHR 0x5C then [CHR 0x5C, CHR 0x5C]
      else if c = CHR 0x08 then [CHR 0x5C, CHR ''b'']
      else if c = CHR 0x0C then [CHR 0x5C, CHR ''f'']
      else if c = CHR 0x0A then [CHR 0x5C, CHR ''n'']
      else if c = CHR 0x0D then [CHR 0x5C, CHR ''r'']
      else if c = CHR 0x09 then [CHR 0x5C, CHR ''t'']
      else if (of_char c :: nat) < 32
        then [CHR 0x5C, CHR ''u'', CHR ''0'', CHR ''0'',
              hex_digit (of_char c div 16), hex_digit (of_char c mod 16)]
      else [c])"

definition quote :: "string \<Rightarrow> string" where
  "quote s = CHR 0x22 # concat (map escape_char s) @ [CHR 0x22]"

text \<open>
  \<open>serialize v\<close> is the text of \<open>v\<close>, or \<open>None\<close> where JSON.stringify gives undefined:
  an undefined array element is written \<^verbatim>\<open>null\<close>, an undefined property is skipped.
\<close>

fun serialize :: "js_value \<Rightarrow> string option" where
  "serialize JUndefined = None"
| "serialize JNull = Some ''null''"
| "serialize (JBool b) = Some (if b then ''true'' else ''false'')"
| "serialize (JNum n) = Some (show_int n)"
| "serialize (JStr s) = Some (quote s)"
| "serialize (JArr xs) =
     Some (''['' @ join '','' (map (\<lambda>x. case serialize x of None \<Rightarrow> ''null'' | Some t \<Rightarrow> t) xs) @ '']'')"
| "serialize (JObj kvs) =
     Some (''{'' @ join '','' (concat (map (\<lambda>(k, v). case serialize v of None \<Rightarrow> []
                                                      | Some t \<Rightarrow> [quote k @ '':'' @ t]) kvs)) @ ''}'')"

definition JSON_stringify :: "js_value \<Rightarrow> js_value" where
  "JSON_stringify v = (case serialize v of None \<Rightarrow> JUndefined | Some t \<Rightarrow> JStr t)"

section \<open>HTTP and the browser environment\<close>

datatype http_method = GET | POST | PUT | PATCH | DELETE

text \<open>
  A request body is text (the result of JSON.stringify), the url-encoded form of a
  URLSearchParams (kept as its list of pairs) or a FormData (kept as its fields).
\<close>

datatype req_body =
    NoBody
  | TextBody string
  | FormBody "(string \<times> string) list"
  | MultipartBody "(string \<times> string) list"

text \<open>The path is relative to \<^verbatim>\<open>API_BASE_URL\<close>.\<close>

record http_request =
  req_method :: http_method
  path :: string
  headers :: "(string \<times> string) list"
  body :: req_body

text \<open>
  A response: \<open>json\<close> is what \<^verbatim>\<open>response.json()\<close> settles to, the parsed body or the
  parser's rejection when the body is not JSON.
\<close>

record response =
  status :: nat
  statusText :: string
  json :: "js_error + js_value"

text \<open>\<^verbatim>\<open>response.ok\<close>\<close>

definition ok :: "response \<Rightarrow> bool" where
  "ok r = (200 \<le> status r \<and> status r \<le> 299)"

datatype toast_kind = ToastSuccess | ToastError

text \<open>
  What the page does to the outside world, in order: requests sent, confirmation
  prompts with the user's answer, alerts, toasts and window events dispatched.
\<close>

datatype event =
    Fetch http_request
  | Confirm string bool
  | Alert string
  | Toast toast_kind string
  | Dispatch string

record env =
  trace :: "event list"
  localStorage :: "string \<rightharpoonup> string"

fun requests :: "event list \<Rightarrow> http_request list" where
  "requests [] = []"
| "requests (Fetch q # evs) = q # requests evs"
| "requests (ev # evs) = requests evs"

text \<open>
  The backend answers a request, given the requests this client sent before it, with
  a response or with a network failure (fetch rejects).
\<close>

type_synonym backend = "http_request list \<Rightarrow> http_request \<Rightarrow> js_error + response"

definition fetch :: "backend \<Rightarrow> http_request \<Rightarrow> env \<Rightarrow> (js_error + response) \<times> env" where
  "fetch be q e = (be (requests (trace e)) q, e\<lparr>trace := trace e @ [Fetch q]\<rparr>)"

text \<open>\<^verbatim>\<open>body: JSON.stringify(x)\<close>: an undefined body sends none.\<close>

fun text_body :: "js_value \<Rightarrow> req_body" where
  "text_body (JStr s) = TextBody s"
| "text_body v = NoBody"

section \<open>The API client (services/api.js)\<close>

definition parseError :: "response \<Rightarrow> js_value" where
  "parseError r =
     (case json r of
        Inr d \<Rightarrow>
          if is_string (own d ''detail'') then own d ''detail''
          else if is_string (own d ''error'') then own d ''error''
          else JSON_stringify d
      | Inl e \<Rightarrow> or_else (JStr (statusText r)) (JStr ''Request failed''))"

text \<open>One constructor per function of \<^verbatim>\<open>apiService\<close>, with its arguments in order.\<close>

datatype api_call =
    GetMe js_value
  | Register js_value
  | Login string string
  | UploadDocument "(string \<times> string) list" js_value
  | GetFiles js_value
  | PresignFile js_value js_value
  | GetMedicalProfile js_value
  | CreateMedicalProfile js_value js_value
  | UpdateMedicalProfile js_value js_value
  | PatchMedicalProfile js_value js_value
  | GetExtraction js_value js_value
  | AcceptExtraction js_value js_value js_value
  | RetryExtraction js_value js_value
  | DeleteFile js_value js_value
  | GetSchedule js_value

definition bearer :: "js_value \<Rightarrow> string \<times> string" where
  "bearer token = (''Authorization'', ''Bearer '' @ ToString token)"

definition json_type :: "string \<times> string" where
  "json_type = (''Content-Type'', ''application/json'')"

text \<open>The request each function passes to \<^verbatim>\<open>fetch\<close>.\<close>

fun request_of :: "api_call \<Rightarrow> http_request" where
  "request_of (GetMe token) =
     \<lparr>req_method = GET, path = ''/auth/me'', headers = [bearer token, json_type], body = NoBody\<rparr>"
| "request_of (Register userData) =
     \<lparr>req_method = POST, path = ''/auth/register'', headers = [json_type],
      body = text_body (JSON_stringify userData)\<rparr>"
| "request_of (Login email password) =
     \<lparr>req_method = POST, path = ''/auth/login'',
      headers = [(''Content-Type'', ''application/x-www-form-urlencoded'')],
      body = FormBody [(''username'', email), (''password'', password)]\<rparr>"
| "request_of (UploadDocument formData token) =
     \<lparr>req_method = POST, path = ''/files/upload'', headers = [bearer token],
      body = MultipartBody formData\<rparr>"
| "request_of (GetFiles token) =
     \<lparr>req_method = GET, path = ''/files/'', headers = [bearer token, json_type], body = NoBody\<rparr>"
| "request_of (PresignFile fileId token) =
     \<lparr>req_method = GET, path = ''/files/'' @ ToString fileId @ ''/presign'',
      headers = [bearer token, json_type], body = NoBody\<rparr>"
| "request_of (GetMedicalProfile token) =
     \<lparr>req_method = GET, path = ''/profile/medical-profile'',
      headers = [bearer token, json_type], body = NoBody\<rparr>"
| "request_of (CreateMedicalProfile profileData token) =
     \<lparr>req_method = POST, path = ''/profile/medical-profile'',
      headers = [bearer token, json_type], body = text_body (JSON_stringify profileData)\<rparr>"
| "request_of (UpdateMedicalProfile profileData token) =
     \<lparr>req_method = PUT, path = ''/profile/medical-profile'',
      headers = [bearer token, json_type], body = text_body (JSON_stringify profileData)\<rparr>"
| "request_of (PatchMedicalProfile partialData token) =
     \<lparr>req_method = PATCH, path = ''/profile/medical-profile'',
      headers = [bearer token, json_type], body = text_body (JSON_stringify partialData)\<rparr>"
| "request_of (GetExtraction fileId token) =
     \<lparr>req_method = GET, path = ''/files/'' @ ToString fileId @ ''/extraction'',
      headers = [bearer token, json_type], body = NoBody\<rparr>"
| "request_of (AcceptExtraction fileId token payload) =
     \<lparr>req_method = POST, path = ''/files/'' @ ToString fileId @ ''/extraction/accept'',
      headers = [bearer token, json_type],
      body = text_body (JSON_stringify
               (if truthy payload then JObj [(''payload'', payload)] else JObj []))\<rparr>"
| "request_of (RetryExtraction fileId token) =
     \<lparr>req_method = POST, path = ''/files/'' @ ToString fileId @ ''/retry'',
      headers = [bearer token, json_type], body = NoBody\<rparr>"
| "request_of (DeleteFile fileId token) =
     \<lparr>req_method = DELETE, path = ''/files/'' @ ToString fileId,
      headers = [bearer token, json_type], body = NoBody\<rparr>"
| "request_of (GetSchedule token) =
     \<lparr>req_method = GET, path = ''/files/schedule'', headers = [bearer token, json_type], body = NoBody\<rparr>"

text \<open>\<^verbatim>\<open>new Error(await parseError(response) || fallback)\<close>\<close>

definition failure :: "response \<Rightarrow> string \<Rightarrow> js_error" where
  "failure r fallback = Thrown Error (ToString (or_else (parseError r) (JStr fallback)))"

text \<open>
  The tail shared by all functions but \<^verbatim>\<open>register\<close> and \<^verbatim>\<open>getMedicalProfile\<close>:
  \<^verbatim>\<open>if (!response.ok) throw new Error(...); return response.json();\<close>
\<close>

definition checked :: "string \<Rightarrow> response \<Rightarrow> js_error + js_value" where
  "checked fallback r = (if \<not> ok r then Inl (failure r fallback) else json r)"

text \<open>The message each function falls back to when the response gives none.\<close>

fun default_message :: "api_call \<Rightarrow> string" where
  "default_message (GetMe token) = ''Failed to fetch current user''"
| "default_message (Register userData) = ''Registration failed''"
| "default_message (Login email password) = ''Login failed''"
| "default_message (UploadDocument formData token) = ''Document upload failed''"
| "default_message (GetFiles token) = ''Failed to fetch files''"
| "default_message (PresignFile fileId token) = ''Failed to get presigned URL''"
| "default_message (GetMedicalProfile token) = ''Failed to fetch medical profile''"
| "default_message (CreateMedicalProfile profileData token) = ''Failed to create medical profile''"
| "default_message (UpdateMedicalProfile profileData token) = ''Failed to update medical profile''"
| "default_message (PatchMedicalProfile partialData token) = ''Failed to patch medical profile''"
| "default_message (GetExtraction fileId token) = ''Failed to fetch extraction''"
| "default_message (AcceptExtraction fileId token payload) = ''Failed to accept extraction''"
| "default_message (RetryExtraction fileId token) = ''Failed to retry extraction''"
| "default_message (DeleteFile fileId token) = ''Failed to delete file''"
| "default_message (GetSchedule token) = ''Failed to fetch schedule''"

text \<open>
  What each function does with the response. \<open>register\<close> reads the body itself;
  \<open>getMedicalProfile\<close> returns null on status 404 before the check.
\<close>

fun settle :: "api_call \<Rightarrow> response \<Rightarrow> js_error + js_value" where
  "settle (Register userData) r =
     (if \<not> ok r then
        (case json r of
           Inl e \<Rightarrow> Inl e
         | Inr errorData \<Rightarrow>
             (case get_prop errorData ''detail'' of
                Inl e \<Rightarrow> Inl e
              | Inr detail \<Rightarrow>
                  Inl (Thrown Error
                        (ToString (or_else detail (JStr (default_message (Register userData))))))))
      else json r)"
| "settle (GetMedicalProfile token) r =
     (if status r = 404 then Inr JNull
      else checked (default_message (GetMedicalProfile token)) r)"
| "settle call r = checked (default_message call) r"

text \<open>A call: one fetch; a network failure is rethrown as it is.\<close>

definition apiService :: "backend \<Rightarrow> api_call \<Rightarrow> env \<Rightarrow> (js_error + js_value) \<times> env" where
  "apiService be call e =
     (case fetch be (request_of call) e of
        (Inl err, e') \<Rightarrow> (Inl err, e')
      | (Inr r, e') \<Rightarrow> (settle call r, e'))"

section \<open>The session store (context/AuthContext.jsx)\<close>

record auth =
  user :: js_value
  token :: js_value

text \<open>\<^verbatim>\<open>isAuthenticated: !!token\<close>\<close>

definition isAuthenticated :: "auth \<Rightarrow> bool" where
  "isAuthenticated a = truthy (token a)"

text \<open>\<^verbatim>\<open>err.message || fallback\<close>\<close>

definition message_or :: "js_error \<Rightarrow> string \<Rightarrow> string" where
  "message_or err fallback = (if message err = [] then fallback else message err)"


definition removeItem :: "string \<Rightarrow> env \<Rightarrow> env" where
  "removeItem k e = e\<lparr>localStorage := (localStorage e)(k := None)\<rparr>"


definition logout :: "auth \<times> env \<Rightarrow> auth \<times> env" where
  "logout = (\<lambda>(a, e). (\<lparr>user = JNull, token = JNull\<rparr>, removeItem ''user'' (removeItem ''token'' e)))"

section \<open>The page (components/OnePageApp.jsx)\<close>

text \<open>
  The profile held in view state is an object: the default profile, a server answer,
  or one of these with text fields replaced by the edit form. It is kept as its
  property list. \<open>props_of\<close> gives the own enumerable properties of a server answer
  (what \<^verbatim>\<open>Object.keys\<close> and indexing see).
\<close>

type_synonym js_object = "(string \<times> js_value) list"

definition prop_of :: "js_object \<Rightarrow> string \<Rightarrow> js_value" where
  "prop_of f k = own (JObj f) k"

fun props_of :: "js_value \<Rightarrow> js_object" where
  "props_of (JObj kvs) = kvs"
| "props_of (JArr xs) = zip (map dec [0..<length xs]) xs"
| "props_of (JStr s) = zip (map dec [0..<length s]) (map (\<lambda>c. JStr [c]) s)"
| "props_of v = []"

definition defaultProfile :: js_object where
  "defaultProfile =
     [(''present_conditions'', JStr []), (''diagnosed_conditions'', JStr []),
      (''medications_past'', JStr []), (''medications_current'', JStr []),
      (''allergies'', JStr []), (''medical_history'', JStr []),
      (''family_history'', JStr []), (''surgeries'', JStr []),
      (''immunizations'', JStr []), (''lifestyle_factors'', JStr [])]"

record app =
  view :: string
  profile :: js_object
  originalProfile :: js_object
  profileExists :: bool
  busy :: bool

text \<open>A request that writes: any method but GET.\<close>

definition is_write :: "http_request \<Rightarrow> bool" where
  "is_write q = (req_method q \<noteq> GET)"

definition emit :: "event \<Rightarrow> env \<Rightarrow> env" where
  "emit ev e = e\<lparr>trace := trace e @ [ev]\<rparr>"

text \<open>
  The fields that \<^verbatim>\<open>profile[k] !== originalProfile[k]\<close> selects, in the order of
  \<^verbatim>\<open>Object.keys(profile)\<close>. Strict inequality is inequality of values here: it differs
  from JavaScript only on two distinct objects of equal content, and the edit form
  replaces fields by strings only.
\<close>

definition changes_of :: "js_object \<Rightarrow> js_object \<Rightarrow> js_object" where
  "changes_of p original = filter (\<lambda>(k, v). prop_of p k \<noteq> prop_of original k) p"

text \<open>
  \<open>saveProfile\<close>, run to completion (\<open>busy\<close> is set while it runs and reset in the
  \<^verbatim>\<open>finally\<close>). \<open>tok\<close> is the session token of the auth context.
\<close>

definition saveProfile :: "backend \<Rightarrow> js_value \<Rightarrow> app \<times> env \<Rightarrow> app \<times> env" where
  "saveProfile be tok = (\<lambda>(s, e).
     if \<not> truthy tok then (s, emit (Toast ToastError ''Sign in first'') e)
     else
       (case (if \<not> profileExists s
              then apiService be (CreateMedicalProfile (JObj (profile s)) tok) e
              else (let changes = changes_of (profile s) (originalProfile s)
                    in if length changes > 0
                       then apiService be (PatchMedicalProfile (JObj changes) tok) e
                       else (Inr JUndefined, e))) of
          (Inl err, e1) \<Rightarrow>
            (s\<lparr>busy := False\<rparr>, emit (Toast ToastError (message_or err ''Save failed'')) e1)
        | (Inr written, e1) \<Rightarrow>
            (case apiService be (GetMedicalProfile tok) e1 of
               (Inl err, e2) \<Rightarrow>
                 (s\<lparr>busy := False\<rparr>, emit (Toast ToastError (message_or err ''Save failed'')) e2)
             | (Inr pf, e2) \<Rightarrow>
                 (s\<lparr>profile := (if truthy pf then props_of pf else defaultProfile),
                    originalProfile := (if truthy pf then props_of pf else defaultProfile),
                    profileExists := truthy pf,
                    view := ''profile'',
                    busy := False\<rparr>,
                  emit (Toast ToastSuccess ''Profile saved'') e2))))"

text \<open>
  The listener for the \<^verbatim>\<open>refresh-files\<close> window event; \<open>fl\<close> is \<open>filesList\<close>. The files
  list is kept as its rows, each row an object: an answer without a length renders no
  row.
\<close>

fun rows_of :: "js_value \<Rightarrow> js_object list" where
  "rows_of (JArr xs) = map props_of xs"
| "rows_of v = []"

definition refresh_files_handler :: "backend \<Rightarrow> js_value \<Rightarrow> js_object list \<times> env \<Rightarrow> js_object list \<times> env" where
  "refresh_files_handler be tok = (\<lambda>(fl, e).
     (case apiService be (GetFiles tok) e of
        (Inl err, e1) \<Rightarrow> (fl, e1)
      | (Inr files, e1) \<Rightarrow> (rows_of (or_else files (JArr [])), e1)))"

section \<open>The views (components/Views.jsx)\<close>

subsection \<open>UploadsView\<close>

text \<open>
  A file row is an object of the files list. The per-row busy maps are indexed by the
  row's id; an absent entry reads as false.
\<close>

record uploads =
  filesList :: "js_object list"
  loadingMap :: "string \<Rightarrow> bool"
  reviewMap :: "string \<Rightarrow> bool"
  busyMap :: "string \<Rightarrow> bool"
  retryBusy :: "string \<Rightarrow> bool"

datatype action = View | ReviewAccept | Retry | Delete

record button =
  action :: action
  disabled :: bool

definition row_id :: "js_object \<Rightarrow> string" where
  "row_id f = ToString (prop_of f ''id'')"

text \<open>The buttons rendered in a row, left to right.\<close>

definition row_buttons :: "uploads \<Rightarrow> js_object \<Rightarrow> button list" where
  "row_buttons u f =
     [\<lparr>action = View, disabled = loadingMap u (row_id f)\<rparr>]
     @ (if prop_of f ''status'' \<noteq> JStr ''accepted''
        then [\<lparr>action = ReviewAccept, disabled = reviewMap u (row_id f)\<rparr>] else [])
     @ (if prop_of f ''status'' \<noteq> JStr ''accepted''
        then [\<lparr>action = Retry, disabled = retryBusy u (row_id f)\<rparr>] else [])
     @ [\<lparr>action = Delete, disabled = busyMap u (row_id f)\<rparr>]"

text \<open>
  \<open>refreshList\<close> fetches the files and dispatches \<^verbatim>\<open>refresh-files\<close>, on which the
  page's listener fetches them again and replaces \<open>filesList\<close>. It returns the files,
  or null on failure.
\<close>

definition refreshList :: "backend \<Rightarrow> js_value \<Rightarrow> js_object list \<times> env \<Rightarrow> js_value \<times> js_object list \<times> env" where
  "refreshList be tok = (\<lambda>(fl, e).
     (case apiService be (GetFiles tok) e of
        (Inl err, e1) \<Rightarrow> (JNull, fl, e1)
      | (Inr files, e1) \<Rightarrow>
          (case refresh_files_handler be tok (fl, emit (Dispatch ''refresh-files'') e1) of
             (fl', e2) \<Rightarrow> (files, fl', e2))))"

text \<open>
  \<^verbatim>\<open>/([0-9]+) seconds/gi.exec(msg)\<close>: the first capture of the leftmost match, if any.
  A match starts at a digit; the greedy digit run must be followed by
  \<^verbatim>\<open>" seconds"\<close> in any letter case (a shorter run is followed by a digit).
\<close>

definition is_digit :: "char \<Rightarrow> bool" where
  "is_digit c = (c \<in> set ''0123456789'')"

definition to_upper :: "char \<Rightarrow> char" where
  "to_upper c =
     (case map_of (zip ''abcdefghijklmnopqrstuvwxyz'' ''ABCDEFGHIJKLMNOPQRSTUVWXYZ'') c of
        Some u \<Rightarrow> u
      | None \<Rightarrow> c)"

fun ci_prefix :: "string \<Rightarrow> string \<Rightarrow> bool" where
  "ci_prefix [] s = True"
| "ci_prefix (p # ps) [] = False"
| "ci_prefix (p # ps) (c # cs) = (to_upper c = to_upper p \<and> ci_prefix ps cs)"

fun exec_seconds :: "string \<Rightarrow> string option" where
  "exec_seconds [] = None"
| "exec_seconds (c # cs) =
     (if is_digit c \<and> ci_prefix '' seconds'' (dropWhile is_digit (c # cs))
      then Some (takeWhile is_digit (c # cs))
      else exec_seconds cs)"

text \<open>
  A seconds count in a message, in the words of the interface: after \<open>pre\<close>, the
  digits \<open>n\<close> directly followed by \<^verbatim>\<open>" seconds"\<close> in any letter case.
\<close>

definition count_at :: "string \<Rightarrow> string \<Rightarrow> string \<Rightarrow> string \<Rightarrow> bool" where
  "count_at msg pre n post =
     (msg = pre @ n @ post \<and> n \<noteq> [] \<and> list_all is_digit n \<and> ci_prefix '' seconds'' post)"

text \<open>The Retry button's handler, run to completion.\<close>

definition retry_click :: "backend \<Rightarrow> js_value \<Rightarrow> js_object \<Rightarrow> uploads \<times> env \<Rightarrow> uploads \<times> env" where
  "retry_click be tok f = (\<lambda>(u, e).
     (case apiService be (RetryExtraction (prop_of f ''id'') tok) e of
        (Inr res, e1) \<Rightarrow>
          (case refreshList be tok (filesList u, e1) of
             (files, fl, e2) \<Rightarrow>
               (u\<lparr>filesList := fl, retryBusy := (retryBusy u)(row_id f := False)\<rparr>,
                emit (Alert ''Retry requested. The extraction has been re-run; open Review to check the new result.'') e2))
      | (Inl err, e1) \<Rightarrow>
          (let msg = message err
           in (u\<lparr>retryBusy := (retryBusy u)(row_id f := False)\<rparr>,
               (case exec_seconds msg of
                  Some m1 \<Rightarrow> emit (Alert (''Please wait ~'' @ m1 @ ''s before retrying again.'')) e1
                | None \<Rightarrow> emit (Alert (if msg = [] then ''Retry failed'' else msg)) e1)))))"

text \<open>\<^verbatim>\<open>filesList.findIndex(x => x.id === f.id)\<close> followed by \<^verbatim>\<open>splice(idx, 1)\<close>\<close>

fun splice_first :: "('a \<Rightarrow> bool) \<Rightarrow> 'a list \<Rightarrow> 'a list" where
  "splice_first P [] = []"
| "splice_first P (x # xs) = (if P x then xs else x # splice_first P xs)"

text \<open>
  The Delete button's handler, run to completion; \<open>answer\<close> is what the user answers
  to \<^verbatim>\<open>window.confirm\<close>.
\<close>

definition delete_click :: "backend \<Rightarrow> js_value \<Rightarrow> bool \<Rightarrow> js_object \<Rightarrow> uploads \<times> env \<Rightarrow> uploads \<times> env" where
  "delete_click be tok answer f = (\<lambda>(u, e).
     (let e0 = emit (Confirm ''Delete this document and its data? This cannot be undone.'' answer) e
      in if \<not> answer then (u, e0)
         else
           (case apiService be (DeleteFile (prop_of f ''id'') tok) e0 of
              (Inl err, e1) \<Rightarrow>
                (u\<lparr>busyMap := (busyMap u)(row_id f := False)\<rparr>,
                 emit (Alert (message_or err ''Delete failed'')) e1)
            | (Inr res, e1) \<Rightarrow>
                (case refreshList be tok
                        (splice_first (\<lambda>x. prop_of x ''id'' = prop_of f ''id'') (filesList u), e1) of
                   (files, fl, e2) \<Rightarrow>
                     (u\<lparr>filesList := fl, busyMap := (busyMap u)(row_id f := False)\<rparr>, e2)))))"

subsection \<open>ChatView\<close>

text \<open>
  A transcript entry. Its id is \<^verbatim>\<open>Date.now() + Math.random()\<close> at the time it is made;
  these readings are inputs of the model.
\<close>

record 'i chat_message =
  msg_id :: 'i
  role :: string
  content :: js_value

text \<open>
  The chat pane. \<open>messages\<close> is the transcript, state of the page (\<open>chatMessages\<close>).
  \<open>text\<close> and \<open>sending\<close> are state of the ChatView on screen, which the page renders
  only while the view is \<^verbatim>\<open>chat\<close> (\<open>chat_open\<close>): every mounting starts them anew, and
  \<open>mount\<close> counts the mountings. \<open>pending\<close> lists the chat requests whose answer is
  still awaited, each by the mounting that sent it.
\<close>

record 'i chat =
  chat_open :: bool
  text' :: string
  sending :: bool
  messages :: "'i chat_message list"
  mount :: nat
  pending :: "nat list"

definition chat_request :: "js_value \<Rightarrow> js_value \<Rightarrow> http_request" where
  "chat_request tok msg =
     \<lparr>req_method = POST, path = ''/chat/'', headers = [json_type, bearer tok],
      body = text_body (JSON_stringify (JObj [(''message'', msg)]))\<rparr>"

text \<open>
  \<open>send\<close> up to its \<^verbatim>\<open>await fetch\<close>: the guard on text and token, the user entry, the
  input cleared, \<open>sending\<close> set and the request sent. \<open>send\<close> does not read \<open>sending\<close>.
\<close>

definition send_start :: "js_value \<Rightarrow> 'i \<Rightarrow> 'i chat \<times> env \<Rightarrow> 'i chat \<times> env" where
  "send_start tok i = (\<lambda>(c, e).
     if text' c = [] \<or> \<not> truthy tok then (c, e)
     else (c\<lparr>messages := messages c @ [\<lparr>msg_id = i, role = ''user'', content = JStr (text' c)\<rparr>],
             text' := [], sending := True, pending := pending c @ [mount c]\<rparr>,
           emit (Fetch (chat_request tok (JStr (text' c)))) e))"

text \<open>
  What the \<open>try\<close> block has once the answer is in: the parsed body \<open>data\<close>, or the error
  that the \<open>catch\<close> receives.
\<close>

definition answer_data :: "js_error + response \<Rightarrow> js_error + js_value" where
  "answer_data out =
     (case out of
        Inl err \<Rightarrow> Inl err
      | Inr res \<Rightarrow> if \<not> ok res then Inl (Thrown Error ''Chat request failed'') else json res)"

text \<open>
  The updater \<^verbatim>\<open>m => [...m, { id, role: 'assistant', content: data.reply }]\<close> that the
  \<open>try\<close> block passes to \<open>setMessages\<close>. React runs it while it renders, outside the
  \<open>try\<close> of \<open>send\<close>: reading \<^verbatim>\<open>data.reply\<close> of null throws there.
\<close>

definition assistant_updater :: "'i \<Rightarrow> js_value \<Rightarrow> 'i chat_message list \<Rightarrow> js_error + 'i chat_message list" where
  "assistant_updater j d m =
     (case get_prop d ''reply'' of
        Inl err \<Rightarrow> Inl err
      | Inr reply \<Rightarrow> Inr (m @ [\<lparr>msg_id = j, role = ''assistant'', content = reply\<rparr>]))"

definition fallback_entry :: "'i \<Rightarrow> 'i chat_message" where
  "fallback_entry j = \<lparr>msg_id = j, role = ''assistant'', content = JStr ''Error: could not get response''\<rparr>"

text \<open>
  \<open>send\<close> after its \<^verbatim>\<open>await\<close>, when the answer \<open>out\<close> of the \<open>n\<close>-th pending request is
  in. The result is the error that escapes into React's rendering, or the new state.
  \<^verbatim>\<open>setSending(false)\<close> acts on the mounting that sent the request, if it is still on
  screen.
\<close>

definition send_finish :: "nat \<Rightarrow> js_error + response \<Rightarrow> 'i \<Rightarrow> 'i chat \<Rightarrow> js_error + 'i chat" where
  "send_finish n out j c =
     (if length (pending c) \<le> n then Inr c
      else
        (let c1 = c\<lparr>sending := (if chat_open c \<and> pending c ! n = mount c then False else sending c),
                    pending := take n (pending c) @ drop (Suc n) (pending c)\<rparr>
         in case answer_data out of
              Inl err \<Rightarrow> Inr (c1\<lparr>messages := messages c @ [fallback_entry j]\<rparr>)
            | Inr d \<Rightarrow>
                (case assistant_updater j d (messages c) of
                   Inl err \<Rightarrow> Inl err
                 | Inr ms \<Rightarrow> Inr (c1\<lparr>messages := ms\<rparr>))))"

text \<open>
  What happens in the pane: the user types, clicks Send (the button is rendered with
  \<^verbatim>\<open>disabled={sending}\<close>), the answer of a pending request comes in, or the user clicks
  the floating button, which closes the pane or opens it with a new ChatView.
\<close>

datatype 'i chat_event =
    Type string
  | ClickSend 'i
  | Answer nat "js_error + response" 'i
  | Toggle

fun chat_step :: "js_value \<Rightarrow> 'i chat_event \<Rightarrow> 'i chat \<times> env \<Rightarrow> js_error + 'i chat \<times> env" where
  "chat_step tok (Type s) (c, e) = Inr (if chat_open c then c\<lparr>text' := s\<rparr> else c, e)"
| "chat_step tok (ClickSend i) (c, e) =
     Inr (if chat_open c \<and> \<not> sending c then send_start tok i (c, e) else (c, e))"
| "chat_step tok (Answer n out j) (c, e) =
     (case send_finish n out j c of Inl err \<Rightarrow> Inl err | Inr c' \<Rightarrow> Inr (c', e))"
| "chat_step tok Toggle (c, e) =
     Inr (if chat_open c then c\<lparr>chat_open := False\<rparr>
          else c\<lparr>chat_open := True, text' := [], sending := False, mount := Suc (mount c)\<rparr>, e)"

fun chat_run :: "js_value \<Rightarrow> 'i chat_event list \<Rightarrow> 'i chat \<times> env \<Rightarrow> js_error + 'i chat \<times> env" where
  "chat_run tok [] s = Inr s"
| "chat_run tok (ev # evs) s =
     (case chat_step tok ev s of Inl err \<Rightarrow> Inl err | Inr s' \<Rightarrow> chat_run tok evs s')"

section \<open>Properties of the API client\<close>

lemma apiService_response:
  "fetch be (request_of call) e = (Inr r, e') \<Longrightarrow> apiService be call e = (settle call r, e')"
  by (simp add: apiService_def)

lemma apiService_trace:
  "trace (snd (apiService be call e)) = trace e @ [Fetch (request_of call)]"
  by (cases "be (requests (trace e)) (request_of call)") (simp_all add: apiService_def fetch_def)

lemma apiService_localStorage:
  "localStorage (snd (apiService be call e)) = localStorage e"
  by (cases "be (requests (trace e)) (request_of call)") (simp_all add: apiService_def fetch_def)

lemma dec_nonempty: "dec n \<noteq> []"
  by (subst dec.simps) simp

lemma show_int_nonempty: "show_int i \<noteq> []"
  by (simp add: show_int_def dec_nonempty)

lemma serialize_nonempty: "serialize d = Some t \<Longrightarrow> t \<noteq> []"
proof (cases d)
  case (JBool b)
  assume "serialize d = Some t"
  with JBool show ?thesis by (cases b) auto
next
  case (JNum n)
  assume "serialize d = Some t"
  with JNum show ?thesis using show_int_nonempty by auto
next
  case (JStr s)
  assume "serialize d = Some t"
  with JStr show ?thesis by (auto simp: quote_def)
qed auto

lemma requests_append: "requests (xs @ ys) = requests xs @ requests ys"
  by (induction xs rule: requests.induct) auto

lemma apiService_env:
  assumes "apiService be call e = (x, e1)"
  shows "trace e1 = trace e @ [Fetch (request_of call)]" and "localStorage e1 = localStorage e"
  using assms apiService_trace [of be call e] apiService_localStorage [of be call e] by auto

text \<open>
  C1. Whatever response the medical-profile fetch receives: on status 404
  \<open>getMedicalProfile\<close> returns null; on any other status outside 200..299 it throws;
  on a status in 200..299 it returns what \<^verbatim>\<open>response.json()\<close> gives, the parsed body.
\<close>

theorem getMedicalProfile_by_status:
  assumes "fetch be (request_of (GetMedicalProfile tok)) e = (Inr r, e')"
  shows "(status r = 404 \<longrightarrow> apiService be (GetMedicalProfile tok) e = (Inr JNull, e')) \<and>
         (status r \<noteq> 404 \<and> \<not> ok r \<longrightarrow>
            (\<exists>err. apiService be (GetMedicalProfile tok) e = (Inl err, e'))) \<and>
         (ok r \<longrightarrow> apiService be (GetMedicalProfile tok) e = (json r, e'))"
  using apiService_response [OF assms] by (auto simp: checked_def ok_def)

text \<open>The three cases on a 404, a 500 and a 200 response.\<close>

theorem getMedicalProfile_by_status_witness:
  "apiService (\<lambda>h q. Inr \<lparr>status = 404, statusText = ''Not Found'', json = Inl (Thrown SyntaxError ''Unexpected end of JSON input'')\<rparr>)
     (GetMedicalProfile (JStr ''t'')) \<lparr>trace = [], localStorage = Map.empty\<rparr>
   = (Inr JNull, \<lparr>trace = [Fetch (request_of (GetMedicalProfile (JStr ''t'')))], localStorage = Map.empty\<rparr>)
   \<and> (\<exists>err. apiService (\<lambda>h q. Inr \<lparr>status = 500, statusText = ''Internal Server Error'', json = Inr (JObj [(''detail'', JStr ''boom'')])\<rparr>)
     (GetMedicalProfile (JStr ''t'')) \<lparr>trace = [], localStorage = Map.empty\<rparr>
   = (Inl err, \<lparr>trace = [Fetch (request_of (GetMedicalProfile (JStr ''t'')))], localStorage = Map.empty\<rparr>))
   \<and> apiService (\<lambda>h q. Inr \<lparr>status = 200, statusText = ''OK'', json = Inr (JObj [(''allergies'', JStr ''none'')])\<rparr>)
     (GetMedicalProfile (JStr ''t'')) \<lparr>trace = [], localStorage = Map.empty\<rparr>
   = (Inr (JObj [(''allergies'', JStr ''none'')]), \<lparr>trace = [Fetch (request_of (GetMedicalProfile (JStr ''t'')))], localStorage = Map.empty\<rparr>)"
  using
    getMedicalProfile_by_status [of "\<lambda>h q. Inr \<lparr>status = 404, statusText = ''Not Found'', json = Inl (Thrown SyntaxError ''Unexpected end of JSON input'')\<rparr>"
      "JStr ''t''" "\<lparr>trace = [], localStorage = Map.empty\<rparr>" _ "\<lparr>trace = [Fetch (request_of (GetMedicalProfile (JStr ''t'')))], localStorage = Map.empty\<rparr>"]
    getMedicalProfile_by_status [of "\<lambda>h q. Inr \<lparr>status = 500, statusText = ''Internal Server Error'', json = Inr (JObj [(''detail'', JStr ''boom'')])\<rparr>"
      "JStr ''t''" "\<lparr>trace = [], localStorage = Map.empty\<rparr>" _ "\<lparr>trace = [Fetch (request_of (GetMedicalProfile (JStr ''t'')))], localStorage = Map.empty\<rparr>"]
    getMedicalProfile_by_status [of "\<lambda>h q. Inr \<lparr>status = 200, statusText = ''OK'', json = Inr (JObj [(''allergies'', JStr ''none'')])\<rparr>"
      "JStr ''t''" "\<lparr>trace = [], localStorage = Map.empty\<rparr>" _ "\<lparr>trace = [Fetch (request_of (GetMedicalProfile (JStr ''t'')))], localStorage = Map.empty\<rparr>"]
  by (simp add: fetch_def ok_def)

lemma settle_checked:
  assumes "\<forall>u. call \<noteq> Register u" and "\<forall>t. call = GetMedicalProfile t \<longrightarrow> status r \<noteq> 404"
  shows "settle call r = checked (default_message call) r"
  using assms by (cases call) auto

lemma serialize_defined: "d \<noteq> JUndefined \<Longrightarrow> \<exists>t. serialize d = Some t"
  by (cases d) auto

lemma failure_message:
  "\<exists>msg. failure r fallback = Thrown Error msg \<and>
     (\<forall>d. json r = Inr d \<longrightarrow>
        (\<forall>s. own d ''detail'' = JStr s \<longrightarrow> msg = (if s = [] then fallback else s)) \<and>
        (\<forall>s. \<not> is_string (own d ''detail'') \<and> own d ''error'' = JStr s \<longrightarrow>
            msg = (if s = [] then fallback else s)) \<and>
        (\<not> is_string (own d ''detail'') \<and> \<not> is_string (own d ''error'') \<and> d \<noteq> JUndefined \<longrightarrow>
            serialize d = Some msg)) \<and>
     (\<forall>x. json r = Inl x \<longrightarrow> msg = (if statusText r = [] then ''Request failed'' else statusText r))"
proof (cases "json r")
  case (Inl x)
  then show ?thesis by (simp add: failure_def parseError_def or_else_def)
next
  case (Inr d)
  show ?thesis
  proof (cases "is_string (own d ''detail'') \<or> is_string (own d ''error'')")
    case True
    with Inr show ?thesis
      by (cases "own d ''detail''"; cases "own d ''error''")
         (auto simp: failure_def parseError_def or_else_def)
  next
    case False
    show ?thesis
    proof (cases "d = JUndefined")
      case True
      with False Inr show ?thesis
        by (auto simp: failure_def parseError_def or_else_def JSON_stringify_def)
    next
      case nu: False
      then obtain t where t: "serialize d = Some t" using serialize_defined by blast
      with serialize_nonempty have "t \<noteq> []" by blast
      with t False Inr show ?thesis
        by (auto simp: failure_def parseError_def or_else_def JSON_stringify_def)
    qed
  qed
qed

text \<open>
  C5, as the client has it. For every function of the client but \<open>register\<close>, and every
  response with a status outside 200..299 (and other than 404 for
  \<open>getMedicalProfile\<close>), the call throws an Error whose message is: the body's
  \<^verbatim>\<open>detail\<close> if that is a string; otherwise the body's \<^verbatim>\<open>error\<close> if that is a string;
  otherwise, for a body that is JSON, the JSON text of the whole body; the status text
  (or \<^verbatim>\<open>Request failed\<close> when it is empty) only for a body that is not JSON. An empty
  \<^verbatim>\<open>detail\<close> or \<^verbatim>\<open>error\<close> string is replaced by the function's default message.
\<close>

theorem error_message_selection:
  assumes "fetch be (request_of call) e = (Inr r, e')" and "\<not> ok r"
    and "\<forall>u. call \<noteq> Register u" and "\<forall>t. call = GetMedicalProfile t \<longrightarrow> status r \<noteq> 404"
  shows "\<exists>msg. apiService be call e = (Inl (Thrown Error msg), e') \<and>
     (\<forall>d. json r = Inr d \<longrightarrow>
        (\<forall>s. own d ''detail'' = JStr s \<longrightarrow> msg = (if s = [] then default_message call else s)) \<and>
        (\<forall>s. \<not> is_string (own d ''detail'') \<and> own d ''error'' = JStr s \<longrightarrow>
            msg = (if s = [] then default_message call else s)) \<and>
        (\<not> is_string (own d ''detail'') \<and> \<not> is_string (own d ''error'') \<and> d \<noteq> JUndefined \<longrightarrow>
            serialize d = Some msg)) \<and>
     (\<forall>x. json r = Inl x \<longrightarrow> msg = (if statusText r = [] then ''Request failed'' else statusText r))"
proof -
  have "apiService be call e = (Inl (failure r (default_message call)), e')"
    using apiService_response [OF assms(1)] settle_checked [OF assms(3,4)] assms(2)
    by (simp add: checked_def)
  with failure_message [of r "default_message call"] show ?thesis by auto
qed

theorem error_message_selection_witness:
  "apiService (\<lambda>h q. Inr \<lparr>status = 403, statusText = ''Forbidden'', json = Inr (JObj [(''detail'', JStr ''Not allowed'')])\<rparr>)
      (DeleteFile (JNum 7) (JStr ''t'')) \<lparr>trace = [], localStorage = Map.empty\<rparr>
     = (Inl (Thrown Error ''Not allowed''),
        \<lparr>trace = [Fetch (request_of (DeleteFile (JNum 7) (JStr ''t'')))], localStorage = Map.empty\<rparr>) \<and>
   apiService (\<lambda>h q. Inr \<lparr>status = 502, statusText = ''Bad Gateway'', json = Inl (Thrown SyntaxError ''Unexpected token'')\<rparr>)
      (GetSchedule (JStr ''t'')) \<lparr>trace = [], localStorage = Map.empty\<rparr>
     = (Inl (Thrown Error ''Bad Gateway''),
        \<lparr>trace = [Fetch (request_of (GetSchedule (JStr ''t'')))], localStorage = Map.empty\<rparr>)"
  using
    error_message_selection [of
      "\<lambda>h q. Inr \<lparr>status = 403, statusText = ''Forbidden'', json = Inr (JObj [(''detail'', JStr ''Not allowed'')])\<rparr>"
      "DeleteFile (JNum 7) (JStr ''t'')" "\<lparr>trace = [], localStorage = Map.empty\<rparr>"
      "\<lparr>status = 403, statusText = ''Forbidden'', json = Inr (JObj [(''detail'', JStr ''Not allowed'')])\<rparr>"
      "\<lparr>trace = [Fetch (request_of (DeleteFile (JNum 7) (JStr ''t'')))], localStorage = Map.empty\<rparr>"]
    error_message_selection [of
      "\<lambda>h q. Inr \<lparr>status = 502, statusText = ''Bad Gateway'', json = Inl (Thrown SyntaxError ''Unexpected token'')\<rparr>"
      "GetSchedule (JStr ''t'')" "\<lparr>trace = [], localStorage = Map.empty\<rparr>"
      "\<lparr>status = 502, statusText = ''Bad Gateway'', json = Inl (Thrown SyntaxError ''Unexpected token'')\<rparr>"
      "\<lparr>trace = [Fetch (request_of (GetSchedule (JStr ''t'')))], localStorage = Map.empty\<rparr>"]
  by (simp add: fetch_def ok_def)

text \<open>
  C5 as stated fails: a 500 response whose JSON body \<^verbatim>\<open>{}\<close> has neither field makes
  \<open>getFiles\<close> throw with the message \<^verbatim>\<open>{}\<close>, not with the status text.
\<close>

theorem error_message_counterexample:
  "fst (apiService (\<lambda>h q. Inr \<lparr>status = 500, statusText = ''Internal Server Error'', json = Inr (JObj [])\<rparr>)
          (GetFiles (JStr ''t'')) \<lparr>trace = [], localStorage = Map.empty\<rparr>)
     = Inl (Thrown Error ''{}'') \<and>
   fst (apiService (\<lambda>h q. Inr \<lparr>status = 500, statusText = ''Internal Server Error'', json = Inr (JObj [])\<rparr>)
          (GetFiles (JStr ''t'')) \<lparr>trace = [], localStorage = Map.empty\<rparr>)
     \<noteq> Inl (Thrown Error ''Internal Server Error'')"
  by (simp add: apiService_def fetch_def checked_def ok_def failure_def parseError_def
        JSON_stringify_def or_else_def)

section \<open>Properties of the session store\<close>



text \<open>
  C3. From any session state, \<open>logout\<close> leaves token and user null in memory and the
  \<^verbatim>\<open>token\<close> and \<^verbatim>\<open>user\<close> entries absent from storage. It is a total function with no
  error result, and it sends no request: the trace is unchanged.
\<close>

theorem logout_clears_session:
  "user (fst (logout (a, e))) = JNull \<and> token (fst (logout (a, e))) = JNull \<and>
   \<not> isAuthenticated (fst (logout (a, e))) \<and>
   localStorage (snd (logout (a, e))) ''token'' = None \<and>
   localStorage (snd (logout (a, e))) ''user'' = None \<and>
   trace (snd (logout (a, e))) = trace e"
  by (simp add: logout_def removeItem_def isAuthenticated_def)



section \<open>Properties of saving the profile\<close>

lemma changes_of_set:
  "(k, v) \<in> set (changes_of p original) \<longleftrightarrow> (k, v) \<in> set p \<and> prop_of p k \<noteq> prop_of original k"
  by (auto simp: changes_of_def)

lemma saveProfile_create:
  assumes "truthy tok" and "\<not> profileExists s"
  shows "\<exists>g. requests (trace (snd (saveProfile be tok (s, e)))) =
           requests (trace e) @ request_of (CreateMedicalProfile (JObj (profile s)) tok) # g \<and>
           (g = [] \<or> g = [request_of (GetMedicalProfile tok)])"
proof -
  obtain x e1 where c: "apiService be (CreateMedicalProfile (JObj (profile s)) tok) e = (x, e1)"
    by (cases "apiService be (CreateMedicalProfile (JObj (profile s)) tok) e")
  obtain y e2 where g: "apiService be (GetMedicalProfile tok) e1 = (y, e2)"
    by (cases "apiService be (GetMedicalProfile tok) e1")
  show ?thesis
    using assms c g apiService_env(1) [OF c] apiService_env(1) [OF g]
    by (cases x; cases y) (simp_all add: saveProfile_def emit_def requests_append)
qed

lemma saveProfile_patch:
  assumes "truthy tok" and "profileExists s" and "changes_of (profile s) (originalProfile s) \<noteq> []"
  shows "\<exists>g. requests (trace (snd (saveProfile be tok (s, e)))) =
           requests (trace e) @
           request_of (PatchMedicalProfile (JObj (changes_of (profile s) (originalProfile s))) tok) # g \<and>
           (g = [] \<or> g = [request_of (GetMedicalProfile tok)])"
proof -
  let ?ch = "changes_of (profile s) (originalProfile s)"
  obtain x e1 where c: "apiService be (PatchMedicalProfile (JObj ?ch) tok) e = (x, e1)"
    by (cases "apiService be (PatchMedicalProfile (JObj ?ch) tok) e")
  obtain y e2 where g: "apiService be (GetMedicalProfile tok) e1 = (y, e2)"
    by (cases "apiService be (GetMedicalProfile tok) e1")
  show ?thesis
    using assms c g apiService_env(1) [OF c] apiService_env(1) [OF g]
    by (cases x; cases y) (simp_all add: saveProfile_def emit_def requests_append)
qed

lemma saveProfile_nothing:
  assumes "truthy tok" and "profileExists s" and "changes_of (profile s) (originalProfile s) = []"
    and "apiService be (GetMedicalProfile tok) e = (y, e2)"
  shows "saveProfile be tok (s, e) =
           (case y of
              Inl err \<Rightarrow> (s\<lparr>busy := False\<rparr>, emit (Toast ToastError (message_or err ''Save failed'')) e2)
            | Inr pf \<Rightarrow>
                 (s\<lparr>profile := (if truthy pf then props_of pf else defaultProfile),
                    originalProfile := (if truthy pf then props_of pf else defaultProfile),
                    profileExists := truthy pf,
                    view := ''profile'',
                    busy := False\<rparr>,
                  emit (Toast ToastSuccess ''Profile saved'') e2))"
  using assms by (cases y) (simp_all add: saveProfile_def)

lemma changes_of_empty:
  "changes_of p original = [] \<longleftrightarrow> (\<forall>k \<in> fst ` set p. prop_of p k = prop_of original k)"
  by (auto simp: changes_of_def filter_empty_conv)


lemma saveProfile_nothing_requests:
  assumes "truthy tok" and "profileExists s" and "changes_of (profile s) (originalProfile s) = []"
  shows "requests (trace (snd (saveProfile be tok (s, e)))) =
           requests (trace e) @ [request_of (GetMedicalProfile tok)]"
proof -
  obtain y e2 where g: "apiService be (GetMedicalProfile tok) e = (y, e2)"
    by (cases "apiService be (GetMedicalProfile tok) e")
  show ?thesis
    using saveProfile_nothing [OF assms g] apiService_env(1) [OF g]
    by (cases y) (simp_all add: emit_def requests_append)
qed

text \<open>
  C2, as the page has it. For a save with a session token: the requests it sends
  extend the earlier ones by \<open>rest\<close>. If no profile exists, the only writing request in
  \<open>rest\<close> is one POST of the whole profile. If a profile exists and some field differs
  from the loaded profile, the only writing request is one PATCH whose body is the
  object \<open>changes_of\<close>, which holds exactly the fields of the edited profile whose value
  differs from the loaded one. If a profile exists and no field differs, \<open>rest\<close> has no
  writing request.
\<close>

theorem saveProfile_write_calls:
  assumes "truthy tok"
  shows "(\<exists>rest. requests (trace (snd (saveProfile be tok (s, e)))) = requests (trace e) @ rest \<and>
     (\<not> profileExists s \<longrightarrow>
        filter is_write rest = [request_of (CreateMedicalProfile (JObj (profile s)) tok)]) \<and>
     (profileExists s \<and> changes_of (profile s) (originalProfile s) \<noteq> [] \<longrightarrow>
        filter is_write rest =
          [request_of (PatchMedicalProfile (JObj (changes_of (profile s) (originalProfile s))) tok)]) \<and>
     (profileExists s \<and> changes_of (profile s) (originalProfile s) = [] \<longrightarrow>
        filter is_write rest = [])) \<and>
     (\<forall>k v. (k, v) \<in> set (changes_of (profile s) (originalProfile s)) \<longleftrightarrow>
        (k, v) \<in> set (profile s) \<and> prop_of (profile s) k \<noteq> prop_of (originalProfile s) k)"
proof (rule conjI)
  consider (create) "\<not> profileExists s"
    | (patch) "profileExists s" "changes_of (profile s) (originalProfile s) \<noteq> []"
    | (unchanged) "profileExists s" "changes_of (profile s) (originalProfile s) = []"
    by blast
  then show "\<exists>rest. requests (trace (snd (saveProfile be tok (s, e)))) = requests (trace e) @ rest \<and>
     (\<not> profileExists s \<longrightarrow>
        filter is_write rest = [request_of (CreateMedicalProfile (JObj (profile s)) tok)]) \<and>
     (profileExists s \<and> changes_of (profile s) (originalProfile s) \<noteq> [] \<longrightarrow>
        filter is_write rest =
          [request_of (PatchMedicalProfile (JObj (changes_of (profile s) (originalProfile s))) tok)]) \<and>
     (profileExists s \<and> changes_of (profile s) (originalProfile s) = [] \<longrightarrow>
        filter is_write rest = [])"
  proof cases
    case create
    from saveProfile_create [OF assms create] obtain g where
      "requests (trace (snd (saveProfile be tok (s, e)))) =
         requests (trace e) @ request_of (CreateMedicalProfile (JObj (profile s)) tok) # g"
      "g = [] \<or> g = [request_of (GetMedicalProfile tok)]" by blast
    with create show ?thesis
      by (intro exI [of _ "request_of (CreateMedicalProfile (JObj (profile s)) tok) # g"])
         (auto simp: is_write_def)
  next
    case patch
    from saveProfile_patch [OF assms patch] obtain g where
      "requests (trace (snd (saveProfile be tok (s, e)))) =
         requests (trace e) @
         request_of (PatchMedicalProfile (JObj (changes_of (profile s) (originalProfile s))) tok) # g"
      "g = [] \<or> g = [request_of (GetMedicalProfile tok)]" by blast
    with patch show ?thesis
      by (intro exI [of _ "request_of (PatchMedicalProfile (JObj (changes_of (profile s) (originalProfile s))) tok) # g"])
         (auto simp: is_write_def)
  next
    case unchanged
    from saveProfile_nothing_requests [OF assms unchanged] unchanged show ?thesis
      by (intro exI [of _ "[request_of (GetMedicalProfile tok)]"])
         (auto simp: is_write_def)
  qed
next
  show "\<forall>k v. (k, v) \<in> set (changes_of (profile s) (originalProfile s)) \<longleftrightarrow>
        (k, v) \<in> set (profile s) \<and> prop_of (profile s) k \<noteq> prop_of (originalProfile s) k"
    by (simp add: changes_of_set)
qed

text \<open>A save after editing one of two fields patches that field only.\<close>

theorem saveProfile_write_calls_witness:
  "filter is_write (requests (trace (snd (saveProfile
      (\<lambda>h q. Inr \<lparr>status = 200, statusText = ''OK'', json = Inr (JObj [(''allergies'', JStr ''nuts''), (''surgeries'', JStr [])])\<rparr>)
      (JStr ''t'')
      (\<lparr>view = ''edit-medical'', profile = [(''allergies'', JStr ''nuts''), (''surgeries'', JStr [])],
        originalProfile = [(''allergies'', JStr []), (''surgeries'', JStr [])], profileExists = True, busy = False\<rparr>,
       \<lparr>trace = [], localStorage = Map.empty\<rparr>)))))
   = [request_of (PatchMedicalProfile (JObj [(''allergies'', JStr ''nuts'')]) (JStr ''t''))]"
  using saveProfile_write_calls [of "JStr ''t''"
      "\<lambda>h q. Inr \<lparr>status = 200, statusText = ''OK'', json = Inr (JObj [(''allergies'', JStr ''nuts''), (''surgeries'', JStr [])])\<rparr>"
      "\<lparr>view = ''edit-medical'', profile = [(''allergies'', JStr ''nuts''), (''surgeries'', JStr [])],
        originalProfile = [(''allergies'', JStr []), (''surgeries'', JStr [])], profileExists = True, busy = False\<rparr>"
      "\<lparr>trace = [], localStorage = Map.empty\<rparr>"]
  by (auto simp: changes_of_def prop_of_def)

text \<open>
  C2 as stated fails: with a profile that exists and an edit that changes nothing,
  the save sends no PATCH; its only request is the GET that re-fetches the profile.
\<close>

theorem saveProfile_patch_counterexample:
  "requests (trace (snd (saveProfile
      (\<lambda>h q. Inr \<lparr>status = 200, statusText = ''OK'', json = Inr (JObj [(''allergies'', JStr ''nuts'')])\<rparr>)
      (JStr ''t'')
      (\<lparr>view = ''edit-medical'', profile = [(''allergies'', JStr ''nuts'')],
        originalProfile = [(''allergies'', JStr ''nuts'')], profileExists = True, busy = False\<rparr>,
       \<lparr>trace = [], localStorage = Map.empty\<rparr>))))
   = [request_of (GetMedicalProfile (JStr ''t''))]"
  by (simp add: saveProfile_def changes_of_def prop_of_def apiService_def fetch_def checked_def ok_def emit_def)

text \<open>
  C10, as the page has it. With a session token, a profile that exists and an edited
  profile equal to the loaded one on every field, the only request of the save is the
  GET that re-fetches the profile: nothing is created, patched or put, so the save
  asks the server for no change. If the re-fetch returns (a profile, or null on 404)
  the save reports success and shows the profile view; if the re-fetch throws, the
  save reports that error instead and only resets \<open>busy\<close>.
\<close>

theorem saveProfile_unchanged:
  assumes "truthy tok" and "profileExists s"
    and "\<forall>k. prop_of (profile s) k = prop_of (originalProfile s) k"
    and "apiService be (GetMedicalProfile tok) e = (y, e1)"
  shows "requests (trace (snd (saveProfile be tok (s, e)))) =
           requests (trace e) @ [request_of (GetMedicalProfile tok)] \<and>
         (\<forall>pf. y = Inr pf \<longrightarrow>
            trace (snd (saveProfile be tok (s, e))) =
              trace e @ [Fetch (request_of (GetMedicalProfile tok)), Toast ToastSuccess ''Profile saved''] \<and>
            view (fst (saveProfile be tok (s, e))) = ''profile'') \<and>
         (\<forall>err. y = Inl err \<longrightarrow>
            trace (snd (saveProfile be tok (s, e))) =
              trace e @ [Fetch (request_of (GetMedicalProfile tok)),
                         Toast ToastError (message_or err ''Save failed'')] \<and>
            fst (saveProfile be tok (s, e)) = s\<lparr>busy := False\<rparr>)"
proof -
  have ch: "changes_of (profile s) (originalProfile s) = []"
    using assms(3) by (simp add: changes_of_empty)
  have t: "trace e1 = trace e @ [Fetch (request_of (GetMedicalProfile tok))]"
    using apiService_env(1) [OF assms(4)] .
  show ?thesis
    using saveProfile_nothing [OF assms(1,2) ch assms(4)] t
    by (cases y) (simp_all add: emit_def requests_append)
qed

text \<open>An unchanged profile and a server that answers the re-fetch.\<close>

theorem saveProfile_unchanged_witness:
  "trace (snd (saveProfile
      (\<lambda>h q. Inr \<lparr>status = 200, statusText = ''OK'', json = Inr (JObj [(''allergies'', JStr ''nuts'')])\<rparr>)
      (JStr ''t'')
      (\<lparr>view = ''edit-medical'', profile = [(''allergies'', JStr ''nuts'')],
        originalProfile = [(''allergies'', JStr ''nuts'')], profileExists = True, busy = False\<rparr>,
       \<lparr>trace = [], localStorage = Map.empty\<rparr>)))
   = [Fetch (request_of (GetMedicalProfile (JStr ''t''))), Toast ToastSuccess ''Profile saved'']"
  using saveProfile_unchanged [of "JStr ''t''"
      "\<lparr>view = ''edit-medical'', profile = [(''allergies'', JStr ''nuts'')],
        originalProfile = [(''allergies'', JStr ''nuts'')], profileExists = True, busy = False\<rparr>"
      "\<lambda>h q. Inr \<lparr>status = 200, statusText = ''OK'', json = Inr (JObj [(''allergies'', JStr ''nuts'')])\<rparr>"
      "\<lparr>trace = [], localStorage = Map.empty\<rparr>"
      "Inr (JObj [(''allergies'', JStr ''nuts'')])"
      "\<lparr>trace = [Fetch (request_of (GetMedicalProfile (JStr ''t'')))], localStorage = Map.empty\<rparr>"]
  by (simp add: apiService_def fetch_def checked_def ok_def)

text \<open>
  C10 as stated fails where the re-fetch fails: with a server that answers 500 the
  save sends the GET only and then reports the error, not success.
\<close>

theorem saveProfile_unchanged_counterexample:
  "trace (snd (saveProfile
      (\<lambda>h q. Inr \<lparr>status = 500, statusText = ''Internal Server Error'',
                     json = Inl (Thrown SyntaxError ''Unexpected token'')\<rparr>)
      (JStr ''t'')
      (\<lparr>view = ''edit-medical'', profile = [(''allergies'', JStr ''nuts'')],
        originalProfile = [(''allergies'', JStr ''nuts'')], profileExists = True, busy = False\<rparr>,
       \<lparr>trace = [], localStorage = Map.empty\<rparr>)))
   = [Fetch (request_of (GetMedicalProfile (JStr ''t''))), Toast ToastError ''Internal Server Error'']"
  by (simp add: saveProfile_def changes_of_def prop_of_def apiService_def fetch_def checked_def ok_def
        emit_def failure_def parseError_def or_else_def message_or_def)

section \<open>Properties of the uploads list\<close>

lemma refresh_files_handler_trace:
  "\<exists>r. trace (snd (refresh_files_handler be tok (fl, e))) = trace e @ r"
proof -
  obtain x e1 where g: "apiService be (GetFiles tok) e = (x, e1)"
    by (cases "apiService be (GetFiles tok) e")
  show ?thesis using g apiService_env(1) [OF g]
    by (cases x) (simp_all add: refresh_files_handler_def)
qed

lemma refreshList_trace:
  "\<exists>r. trace (snd (snd (refreshList be tok (fl, e)))) = trace e @ r"
proof -
  obtain x e1 where g: "apiService be (GetFiles tok) e = (x, e1)"
    by (cases "apiService be (GetFiles tok) e")
  show ?thesis
  proof (cases x)
    case (Inl err)
    with g apiService_env(1) [OF g] show ?thesis by (simp add: refreshList_def)
  next
    case (Inr files)
    obtain r where "trace (snd (refresh_files_handler be tok (fl, emit (Dispatch ''refresh-files'') e1)))
        = trace (emit (Dispatch ''refresh-files'') e1) @ r"
      using refresh_files_handler_trace by blast
    with Inr g apiService_env(1) [OF g] show ?thesis
      by (simp add: refreshList_def emit_def split: prod.splits)
  qed
qed

lemma delete_confirmed:
  "\<exists>rest. trace (snd (delete_click be tok True f (u, e))) =
     trace e @ Confirm ''Delete this document and its data? This cannot be undone.'' True
             # Fetch (request_of (DeleteFile (prop_of f ''id'') tok)) # rest"
proof -
  let ?e0 = "emit (Confirm ''Delete this document and its data? This cannot be undone.'' True) e"
  obtain x e1 where d: "apiService be (DeleteFile (prop_of f ''id'') tok) ?e0 = (x, e1)"
    by (cases "apiService be (DeleteFile (prop_of f ''id'') tok) ?e0")
  show ?thesis
  proof (cases x)
    case (Inl err)
    with d apiService_env(1) [OF d] show ?thesis
      by (simp add: delete_click_def emit_def)
  next
    case (Inr res)
    let ?fl = "splice_first (\<lambda>x. prop_of x ''id'' = prop_of f ''id'') (filesList u)"
    obtain files fl e2 where rl: "refreshList be tok (?fl, e1) = (files, fl, e2)"
      by (cases "refreshList be tok (?fl, e1)") auto
    obtain r where r: "trace e2 = trace e1 @ r"
      using refreshList_trace [of be tok ?fl e1] rl by auto
    have "snd (delete_click be tok True f (u, e)) = e2"
      using d Inr rl by (simp add: delete_click_def)
    moreover have "trace e1 = trace e @ [Confirm ''Delete this document and its data? This cannot be undone.'' True,
        Fetch (request_of (DeleteFile (prop_of f ''id'') tok))]"
      using apiService_env(1) [OF d] by (simp add: emit_def)
    ultimately show ?thesis using r by simp
  qed
qed

lemma retry_failed:
  assumes "apiService be (RetryExtraction (prop_of f ''id'') tok) e = (Inl err, e1)"
  shows "trace (snd (retry_click be tok f (u, e))) =
     trace e1 @ [Alert (case exec_seconds (message err) of
                          Some n \<Rightarrow> ''Please wait ~'' @ n @ ''s before retrying again.''
                        | None \<Rightarrow> if message err = [] then ''Retry failed'' else message err)]"
  using assms by (simp add: retry_click_def emit_def Let_def split: option.splits)

lemma to_upper_space: "to_upper (CHR '' '') = CHR '' ''"
  by (simp add: to_upper_def)

lemma to_upper_digit: "is_digit c \<Longrightarrow> to_upper c = c"
  unfolding is_digit_def by (simp, elim disjE) (simp_all add: to_upper_def)


lemma ci_prefix_seconds_no_digit:
  assumes "ci_prefix '' seconds'' post"
  shows "dropWhile is_digit post = post"
proof (cases post)
  case Nil
  then show ?thesis by simp
next
  case (Cons c cs)
  with assms have u: "to_upper c = CHR '' ''" by (simp add: to_upper_space)
  have "\<not> is_digit c"
  proof
    assume d: "is_digit c"
    with u to_upper_digit have "c = CHR '' ''" by simp
    with d show False by (simp add: is_digit_def)
  qed
  with Cons show ?thesis by simp
qed


lemma exec_seconds_found:
  assumes "n \<noteq> []" and "list_all is_digit n" and "ci_prefix '' seconds'' post"
  shows "exec_seconds (pre @ n @ post) \<noteq> None"
proof (induction pre)
  case Nil
  from assms(1) obtain d ds where n: "n = d # ds" by (cases n) auto
  with assms(2) have d: "is_digit d" by simp
  have "dropWhile is_digit (n @ post) = post"
    using assms(2) ci_prefix_seconds_no_digit [OF assms(3)]
    by (simp add: dropWhile_append list_all_iff)
  then have "is_digit d \<and> ci_prefix '' seconds'' (dropWhile is_digit (d # ds @ post))"
    using d assms(3) n by simp
  then have "exec_seconds (d # ds @ post) = Some (takeWhile is_digit (d # ds @ post))"
    by (simp only: exec_seconds.simps simp_thms if_True)
  with n show ?case by simp
next
  case (Cons p pre)
  show ?case
  proof (cases "is_digit p \<and> ci_prefix '' seconds'' (dropWhile is_digit (p # pre @ n @ post))")
    case True
    then have "exec_seconds (p # pre @ n @ post) = Some (takeWhile is_digit (p # pre @ n @ post))"
      by (simp only: exec_seconds.simps simp_thms if_True)
    then show ?thesis by simp
  next
    case False
    then have "exec_seconds (p # pre @ n @ post) = exec_seconds (pre @ n @ post)"
      by (simp only: exec_seconds.simps simp_thms if_False)
    with Cons.IH show ?thesis by simp
  qed
qed

lemma count_takeWhile:
  assumes "list_all is_digit n" and "ci_prefix '' seconds'' post"
  shows "takeWhile is_digit (n @ post) = n" and "dropWhile is_digit (n @ post) = post"
proof -
  have d: "dropWhile is_digit post = post" using ci_prefix_seconds_no_digit [OF assms(2)] .
  from takeWhile_dropWhile_id [of is_digit post] d have t: "takeWhile is_digit post = []" by simp
  from assms(1) have a: "\<And>x. x \<in> set n \<Longrightarrow> is_digit x" by (simp add: list_all_iff)
  show "takeWhile is_digit (n @ post) = n" using a t by (simp add: takeWhile_append2)
  show "dropWhile is_digit (n @ post) = post" using a d by (simp add: dropWhile_append2)
qed

lemma exec_seconds_leftmost:
  "exec_seconds msg = Some n \<Longrightarrow>
     \<exists>pre post. count_at msg pre n post \<and>
       (\<forall>pre' n' post'. count_at msg pre' n' post' \<longrightarrow> length pre \<le> length pre')"
proof (induction msg)
  case Nil
  then show ?case by simp
next
  case (Cons c cs)
  show ?case
  proof (cases "is_digit c \<and> ci_prefix '' seconds'' (dropWhile is_digit (c # cs))")
    case True
    have "exec_seconds (c # cs) = Some (takeWhile is_digit (c # cs))"
      using True by (simp only: exec_seconds.simps simp_thms if_True)
    with Cons.prems have n: "n = takeWhile is_digit (c # cs)" by simp
    have "c # cs = [] @ n @ dropWhile is_digit (c # cs)" unfolding n by simp
    moreover have "n \<noteq> []" using True n by simp
    moreover have "list_all is_digit n" unfolding n by (simp add: list_all_iff) (meson set_takeWhileD)
    ultimately have "count_at (c # cs) [] n (dropWhile is_digit (c # cs))"
      using True unfolding count_at_def by blast
    then show ?thesis by (intro exI [of _ "[]"] exI [of _ "dropWhile is_digit (c # cs)"]) simp
  next
    case False
    have "exec_seconds (c # cs) = exec_seconds cs"
      using False by (simp only: exec_seconds.simps simp_thms if_False)
    with Cons.prems have "exec_seconds cs = Some n" by simp
    from Cons.IH [OF this] obtain pre post where
      c: "count_at cs pre n post" and
      m: "\<forall>pre' n' post'. count_at cs pre' n' post' \<longrightarrow> length pre \<le> length pre'" by blast
    from c have c': "count_at (c # cs) (c # pre) n post" by (simp add: count_at_def)
    have "\<forall>pre' n' post'. count_at (c # cs) pre' n' post' \<longrightarrow> length (c # pre) \<le> length pre'"
    proof (intro allI impI)
      fix pre' n' post'
      assume a: "count_at (c # cs) pre' n' post'"
      show "length (c # pre) \<le> length pre'"
      proof (cases pre')
        case Nil
        with a have e: "c # cs = n' @ post'" and ne: "n' \<noteq> []" and dg: "list_all is_digit n'"
          and cp: "ci_prefix '' seconds'' post'" by (simp_all add: count_at_def)
        from e ne dg have "is_digit c" by (cases n') auto
        moreover have "dropWhile is_digit (c # cs) = post'"
          unfolding e using count_takeWhile(2) [OF dg cp] .
        ultimately show ?thesis using False cp by simp
      next
        case (Cons x pre'')
        with a have "count_at cs pre'' n' post'" by (simp add: count_at_def)
        with m have "length pre \<le> length pre''" by blast
        with Cons show ?thesis by simp
      qed
    qed
    with c' show ?thesis by blast
  qed
qed

lemma count_at_same_start:
  assumes "count_at msg pre n post" and "count_at msg pre2 n2 post2" and "length pre = length pre2"
  shows "n = n2"
proof -
  from assms have "pre @ n @ post = pre2 @ n2 @ post2" by (simp add: count_at_def)
  with assms(3) have e: "n @ post = n2 @ post2" by simp
  from assms(1) have "takeWhile is_digit (n @ post) = n"
    using count_takeWhile(1) by (simp add: count_at_def)
  moreover from assms(2) have "takeWhile is_digit (n2 @ post2) = n2"
    using count_takeWhile(1) by (simp add: count_at_def)
  ultimately show ?thesis using e by simp
qed

lemma exec_seconds_count:
  assumes "count_at msg pre n post"
  shows "exec_seconds msg \<noteq> None"
  using assms exec_seconds_found [of n post pre] by (simp add: count_at_def)

lemma exec_seconds_of_leftmost:
  assumes "count_at msg pre n post"
    and "\<forall>pre' n' post'. count_at msg pre' n' post' \<longrightarrow> length pre \<le> length pre'"
  shows "exec_seconds msg = Some n"
proof -
  from exec_seconds_count [OF assms(1)] obtain n2 where s: "exec_seconds msg = Some n2" by auto
  from exec_seconds_leftmost [OF s] obtain pre2 post2 where
    c2: "count_at msg pre2 n2 post2" and
    m2: "\<forall>pre' n' post'. count_at msg pre' n' post' \<longrightarrow> length pre2 \<le> length pre'" by blast
  from assms(2) c2 have "length pre \<le> length pre2" by blast
  moreover from m2 assms(1) have "length pre2 \<le> length pre" by blast
  ultimately have "length pre = length pre2" by simp
  from count_at_same_start [OF assms(1) c2 this] s show ?thesis by simp
qed

text \<open>
  C6. A row whose status is \<^verbatim>\<open>accepted\<close> renders the View and Delete buttons only,
  so neither Review/Accept nor Retry; any other row renders View, Review/Accept, Retry
  and Delete. Delete is rendered in both cases, and its handler starts with the
  confirmation prompt: declined, it does nothing else; confirmed, the DELETE request
  follows the prompt.
\<close>

theorem row_actions_by_status:
  "(prop_of f ''status'' = JStr ''accepted'' \<longrightarrow> map action (row_buttons u f) = [View, Delete]) \<and>
   (prop_of f ''status'' \<noteq> JStr ''accepted'' \<longrightarrow>
      map action (row_buttons u f) = [View, ReviewAccept, Retry, Delete]) \<and>
   delete_click be tok False f (u, e) =
     (u, emit (Confirm ''Delete this document and its data? This cannot be undone.'' False) e) \<and>
   (\<exists>rest. trace (snd (delete_click be tok True f (u, e))) =
      trace e @ Confirm ''Delete this document and its data? This cannot be undone.'' True
              # Fetch (request_of (DeleteFile (prop_of f ''id'') tok)) # rest)"
  using delete_confirmed [of be tok f u e]
  by (simp add: row_buttons_def delete_click_def)

text \<open>An accepted row and a row awaiting review.\<close>

theorem row_actions_by_status_witness:
  "map action (row_buttons \<lparr>filesList = [], loadingMap = (\<lambda>k. False), reviewMap = (\<lambda>k. False), busyMap = (\<lambda>k. False), retryBusy = (\<lambda>k. False)\<rparr>
       [(''id'', JNum 7), (''status'', JStr ''accepted'')]) = [View, Delete] \<and>
   map action (row_buttons \<lparr>filesList = [], loadingMap = (\<lambda>k. False), reviewMap = (\<lambda>k. False), busyMap = (\<lambda>k. False), retryBusy = (\<lambda>k. False)\<rparr>
       [(''id'', JNum 8), (''status'', JStr ''awaiting_review'')]) = [View, ReviewAccept, Retry, Delete]"
  using
    row_actions_by_status [of "[(''id'', JNum 7), (''status'', JStr ''accepted'')]"
      "\<lparr>filesList = [], loadingMap = (\<lambda>k. False), reviewMap = (\<lambda>k. False), busyMap = (\<lambda>k. False), retryBusy = (\<lambda>k. False)\<rparr>"]
    row_actions_by_status [of "[(''id'', JNum 8), (''status'', JStr ''awaiting_review'')]"
      "\<lparr>filesList = [], loadingMap = (\<lambda>k. False), reviewMap = (\<lambda>k. False), busyMap = (\<lambda>k. False), retryBusy = (\<lambda>k. False)\<rparr>"]
  by (simp add: prop_of_def)

text \<open>
  C9, as the view has it. When \<open>retryExtraction\<close> throws, the handler shows one alert.
  If the error message holds a seconds count, the alert is the fixed text
  \<^verbatim>\<open>Please wait ~Ns before retrying again.\<close> where N is the whole digit run of the
  leftmost seconds count of the message (one exists whenever any count does). If the
  message holds no seconds count, the alert is the error message itself, or
  \<^verbatim>\<open>Retry failed\<close> when the message is empty.
\<close>

theorem retry_failure_alert:
  assumes "apiService be (RetryExtraction (prop_of f ''id'') tok) e = (Inl err, e1)"
  shows "\<exists>shown. trace (snd (retry_click be tok f (u, e))) = trace e1 @ [Alert shown] \<and>
     (\<forall>pre n post.
        count_at (message err) pre n post \<and>
        (\<forall>pre' n' post'. count_at (message err) pre' n' post' \<longrightarrow> length pre \<le> length pre') \<longrightarrow>
        shown = ''Please wait ~'' @ n @ ''s before retrying again.'') \<and>
     ((\<exists>pre n post. count_at (message err) pre n post) \<longrightarrow>
        (\<exists>pre n post. count_at (message err) pre n post \<and>
           (\<forall>pre' n' post'. count_at (message err) pre' n' post' \<longrightarrow> length pre \<le> length pre'))) \<and>
     ((\<forall>pre n post. \<not> count_at (message err) pre n post) \<longrightarrow>
        shown = (if message err = [] then ''Retry failed'' else message err))"
proof (cases "exec_seconds (message err)")
  case None
  then have no: "\<forall>pre n post. \<not> count_at (message err) pre n post"
    using exec_seconds_count by blast
  from None retry_failed [OF assms, of u]
  have "trace (snd (retry_click be tok f (u, e))) =
      trace e1 @ [Alert (if message err = [] then ''Retry failed'' else message err)]" by simp
  with no show ?thesis by blast
next
  case (Some m)
  from Some retry_failed [OF assms, of u]
  have t: "trace (snd (retry_click be tok f (u, e))) =
      trace e1 @ [Alert (''Please wait ~'' @ m @ ''s before retrying again.'')]" by simp
  have a: "\<forall>pre n post.
        count_at (message err) pre n post \<and>
        (\<forall>pre' n' post'. count_at (message err) pre' n' post' \<longrightarrow> length pre \<le> length pre') \<longrightarrow>
        ''Please wait ~'' @ m @ ''s before retrying again.'' = ''Please wait ~'' @ n @ ''s before retrying again.''"
    using exec_seconds_of_leftmost Some by fastforce
  have b: "\<exists>pre n post. count_at (message err) pre n post \<and>
           (\<forall>pre' n' post'. count_at (message err) pre' n' post' \<longrightarrow> length pre \<le> length pre')"
    using exec_seconds_leftmost [OF Some] by blast
  have c: "\<not> (\<forall>pre n post. \<not> count_at (message err) pre n post)" using b by blast
  show ?thesis
    by (rule exI [of _ "''Please wait ~'' @ m @ ''s before retrying again.''"]) (use t a b c in blast)
qed

text \<open>A cooldown of 12 seconds, and a failure without a seconds count.\<close>

theorem retry_failure_alert_witness:
  "trace (snd (retry_click
      (\<lambda>h q. Inr \<lparr>status = 429, statusText = ''Too Many Requests'', json = Inr (JObj [(''detail'', JStr ''Retry in 12 Seconds'')])\<rparr>)
      (JStr ''t'') [(''id'', JNum 7), (''status'', JStr ''uploaded'')]
      (\<lparr>filesList = [], loadingMap = (\<lambda>k. False), reviewMap = (\<lambda>k. False), busyMap = (\<lambda>k. False), retryBusy = (\<lambda>k. False)\<rparr>,
       \<lparr>trace = [], localStorage = Map.empty\<rparr>)))
   = [Fetch (request_of (RetryExtraction (JNum 7) (JStr ''t''))), Alert ''Please wait ~12s before retrying again.''] \<and>
   trace (snd (retry_click
      (\<lambda>h q. Inr \<lparr>status = 500, statusText = ''Internal Server Error'', json = Inr (JObj [(''detail'', JStr ''OCR down'')])\<rparr>)
      (JStr ''t'') [(''id'', JNum 7), (''status'', JStr ''uploaded'')]
      (\<lparr>filesList = [], loadingMap = (\<lambda>k. False), reviewMap = (\<lambda>k. False), busyMap = (\<lambda>k. False), retryBusy = (\<lambda>k. False)\<rparr>,
       \<lparr>trace = [], localStorage = Map.empty\<rparr>)))
   = [Fetch (request_of (RetryExtraction (JNum 7) (JStr ''t''))), Alert ''OCR down'']"
proof -
  let ?f = "[(''id'', JNum 7), (''status'', JStr ''uploaded'')]"
  let ?u = "\<lparr>filesList = [], loadingMap = (\<lambda>k. False), reviewMap = (\<lambda>k. False), busyMap = (\<lambda>k. False), retryBusy = (\<lambda>k. False)\<rparr>"
  let ?e = "\<lparr>trace = [], localStorage = Map.empty\<rparr>"
  let ?e1 = "\<lparr>trace = [Fetch (request_of (RetryExtraction (JNum 7) (JStr ''t'')))], localStorage = Map.empty\<rparr>"
  let ?b1 = "\<lambda>h q. Inr \<lparr>status = 429, statusText = ''Too Many Requests'', json = Inr (JObj [(''detail'', JStr ''Retry in 12 Seconds'')])\<rparr>"
  let ?b2 = "\<lambda>h q. Inr \<lparr>status = 500, statusText = ''Internal Server Error'', json = Inr (JObj [(''detail'', JStr ''OCR down'')])\<rparr>"
  have x1: "exec_seconds ''Retry in 12 Seconds'' = Some ''12''"
    by (simp add: is_digit_def to_upper_def)
  have x2: "exec_seconds ''OCR down'' = None"
    by (simp add: is_digit_def to_upper_def)
  have a1: "apiService ?b1 (RetryExtraction (prop_of ?f ''id'') (JStr ''t'')) ?e
      = (Inl (Thrown Error ''Retry in 12 Seconds''), ?e1)"
    by (simp add: apiService_def fetch_def checked_def ok_def failure_def parseError_def or_else_def prop_of_def)
  have a2: "apiService ?b2 (RetryExtraction (prop_of ?f ''id'') (JStr ''t'')) ?e
      = (Inl (Thrown Error ''OCR down''), ?e1)"
    by (simp add: apiService_def fetch_def checked_def ok_def failure_def parseError_def or_else_def prop_of_def)
  from exec_seconds_leftmost [OF x1] obtain pre post where
    c: "count_at ''Retry in 12 Seconds'' pre ''12'' post \<and>
        (\<forall>pre' n' post'. count_at ''Retry in 12 Seconds'' pre' n' post' \<longrightarrow> length pre \<le> length pre')"
    by blast
  from retry_failure_alert [OF a1, of ?u] c
  have r1: "trace (snd (retry_click ?b1 (JStr ''t'') ?f (?u, ?e)))
      = trace ?e1 @ [Alert (''Please wait ~'' @ ''12'' @ ''s before retrying again.'')]"
    by (metis js_error.sel(2))
  have n: "\<forall>pre n post. \<not> count_at ''OCR down'' pre n post"
    using x2 exec_seconds_count by blast
  from retry_failure_alert [OF a2, of ?u] n
  have r2: "trace (snd (retry_click ?b2 (JStr ''t'') ?f (?u, ?e)))
      = trace ?e1 @ [Alert ''OCR down'']"
    by (metis js_error.sel(2) list.distinct(1))
  from r1 r2 show ?thesis by simp
qed

text \<open>
  C9 as stated fails: \<open>retryExtraction\<close> throws with the cooldown message
  \<^verbatim>\<open>Wait 30 seconds\<close>, and the alert is not that message but
  \<^verbatim>\<open>Please wait ~30s before retrying again.\<close>
\<close>

theorem retry_alert_counterexample:
  "fst (apiService
      (\<lambda>h q. Inr \<lparr>status = 429, statusText = ''Too Many Requests'', json = Inr (JObj [(''detail'', JStr ''Wait 30 seconds'')])\<rparr>)
      (RetryExtraction (JNum 7) (JStr ''t'')) \<lparr>trace = [], localStorage = Map.empty\<rparr>)
   = Inl (Thrown Error ''Wait 30 seconds'') \<and>
   trace (snd (retry_click
      (\<lambda>h q. Inr \<lparr>status = 429, statusText = ''Too Many Requests'', json = Inr (JObj [(''detail'', JStr ''Wait 30 seconds'')])\<rparr>)
      (JStr ''t'') [(''id'', JNum 7), (''status'', JStr ''uploaded'')]
      (\<lparr>filesList = [], loadingMap = (\<lambda>k. False), reviewMap = (\<lambda>k. False), busyMap = (\<lambda>k. False), retryBusy = (\<lambda>k. False)\<rparr>,
       \<lparr>trace = [], localStorage = Map.empty\<rparr>)))
   = [Fetch (request_of (RetryExtraction (JNum 7) (JStr ''t''))), Alert ''Please wait ~30s before retrying again.'']"
  by (simp add: retry_click_def apiService_def fetch_def checked_def ok_def failure_def parseError_def
        or_else_def emit_def prop_of_def is_digit_def to_upper_def)

section \<open>Properties of the chat\<close>

lemma answer_data_failed:
  "isl out \<or> (\<exists>res. out = Inr res \<and> \<not> ok res) \<Longrightarrow> isl (answer_data out)"
  by (cases out) (auto simp: answer_data_def)

lemma send_finish_reply:
  assumes "pending c = [m]" and "ok res" and "json res = Inr (JObj kvs)" and "map_of kvs ''reply'' = Some r"
  shows "send_finish 0 (Inr res) j c =
           Inr (c\<lparr>sending := (if chat_open c \<and> m = mount c then False else sending c),
                  pending := [],
                  messages := messages c @ [\<lparr>msg_id = j, role = ''assistant'', content = r\<rparr>]\<rparr>)"
  using assms by (simp add: send_finish_def answer_data_def assistant_updater_def)

lemma send_finish_failed:
  assumes "pending c = [m]" and "isl out \<or> (\<exists>res. out = Inr res \<and> \<not> ok res)"
  shows "send_finish 0 out j c =
           Inr (c\<lparr>sending := (if chat_open c \<and> m = mount c then False else sending c),
                  pending := [],
                  messages := messages c @ [fallback_entry j]\<rparr>)"
proof -
  from answer_data_failed [OF assms(2)] obtain err where "answer_data out = Inl err"
    by (cases "answer_data out") auto
  with assms(1) show ?thesis by (simp add: send_finish_def)
qed

lemma send_finish_null_body:
  assumes "pending c = [m]" and "ok res" and "json res = Inr JNull"
  shows "send_finish 0 (Inr res) j c = Inl null_deref"
  using assms by (simp add: send_finish_def answer_data_def assistant_updater_def)

text \<open>
  C7. A send from an empty transcript, in an open pane with input text, a session
  token and nothing pending: the click sends the chat request. If its answer is a 2xx
  response whose body is an object with reply \<open>r\<close>, the transcript becomes the user
  entry followed by an assistant entry with content \<open>r\<close>. If the request fails on the
  network or is answered with a status outside 200..299, the transcript becomes the
  user entry followed by one assistant entry with the fixed text
  \<^verbatim>\<open>Error: could not get response\<close>. In both cases the run ends in a state: no error
  escapes into the rendering.
\<close>

theorem send_from_empty:
  assumes "chat_open c" and "\<not> sending c" and "pending c = []" and "messages c = []"
    and "text' c \<noteq> []" and "truthy tok"
  shows "(\<forall>res kvs r. ok res \<and> json res = Inr (JObj kvs) \<and> map_of kvs ''reply'' = Some r \<longrightarrow>
            chat_run tok [ClickSend i, Answer 0 (Inr res) j] (c, e) =
              Inr (c\<lparr>messages := [\<lparr>msg_id = i, role = ''user'', content = JStr (text' c)\<rparr>,
                                   \<lparr>msg_id = j, role = ''assistant'', content = r\<rparr>],
                     text' := [], sending := False, pending := []\<rparr>,
                   emit (Fetch (chat_request tok (JStr (text' c)))) e)) \<and>
         (\<forall>out. isl out \<or> (\<exists>res. out = Inr res \<and> \<not> ok res) \<longrightarrow>
            chat_run tok [ClickSend i, Answer 0 out j] (c, e) =
              Inr (c\<lparr>messages := [\<lparr>msg_id = i, role = ''user'', content = JStr (text' c)\<rparr>,
                                   \<lparr>msg_id = j, role = ''assistant'',
                                    content = JStr ''Error: could not get response''\<rparr>],
                     text' := [], sending := False, pending := []\<rparr>,
                   emit (Fetch (chat_request tok (JStr (text' c)))) e))"
proof (intro conjI allI impI)
  let ?c1 = "c\<lparr>messages := messages c @ [\<lparr>msg_id = i, role = ''user'', content = JStr (text' c)\<rparr>],
             text' := [], sending := True, pending := pending c @ [mount c]\<rparr>"
  let ?e1 = "emit (Fetch (chat_request tok (JStr (text' c)))) e"
  have start: "chat_step tok (ClickSend i) (c, e) = Inr (?c1, ?e1)"
    using assms by (simp add: send_start_def)
  have p: "pending ?c1 = [mount c]" using assms(3) by simp
  {
    fix res kvs r
    assume h: "ok res \<and> json res = Inr (JObj kvs) \<and> map_of kvs ''reply'' = Some r"
    then have "send_finish 0 (Inr res) j ?c1 =
       Inr (?c1\<lparr>sending := (if chat_open ?c1 \<and> mount c = mount ?c1 then False else sending ?c1),
                 pending := [],
                 messages := messages ?c1 @ [\<lparr>msg_id = j, role = ''assistant'', content = r\<rparr>]\<rparr>)"
      using send_finish_reply [OF p, of res kvs r j] by simp
    with start assms(1,4)
    show "chat_run tok [ClickSend i, Answer 0 (Inr res) j] (c, e) =
              Inr (c\<lparr>messages := [\<lparr>msg_id = i, role = ''user'', content = JStr (text' c)\<rparr>,
                                   \<lparr>msg_id = j, role = ''assistant'', content = r\<rparr>],
                     text' := [], sending := False, pending := []\<rparr>, ?e1)"
      by simp
  }
  {
    fix out :: "js_error + response"
    assume h: "isl out \<or> (\<exists>res. out = Inr res \<and> \<not> ok res)"
    have "send_finish 0 out j ?c1 =
       Inr (?c1\<lparr>sending := (if chat_open ?c1 \<and> mount c = mount ?c1 then False else sending ?c1),
                 pending := [],
                 messages := messages ?c1 @ [fallback_entry j]\<rparr>)"
      using send_finish_failed [OF p h] .
    with start assms(1,4)
    show "chat_run tok [ClickSend i, Answer 0 out j] (c, e) =
              Inr (c\<lparr>messages := [\<lparr>msg_id = i, role = ''user'', content = JStr (text' c)\<rparr>,
                                   \<lparr>msg_id = j, role = ''assistant'',
                                    content = JStr ''Error: could not get response''\<rparr>],
                     text' := [], sending := False, pending := []\<rparr>, ?e1)"
      by (simp add: fallback_entry_def)
  }
qed


text \<open>Hello answered by Hi there, and Hello on a failing network.\<close>

theorem send_from_empty_witness:
  "chat_run (JStr ''t'')
      [ClickSend (1::nat), Answer 0 (Inr \<lparr>status = 200, statusText = ''OK'', json = Inr (JObj [(''reply'', JStr ''Hi there'')])\<rparr>) 2]
      (\<lparr>chat_open = True, text' = ''Hello'', sending = False, messages = [], mount = 0, pending = []\<rparr>,
       \<lparr>trace = [], localStorage = Map.empty\<rparr>)
   = Inr (\<lparr>chat_open = True, text' = [], sending = False,
           messages = [\<lparr>msg_id = 1, role = ''user'', content = JStr ''Hello''\<rparr>,
                       \<lparr>msg_id = 2, role = ''assistant'', content = JStr ''Hi there''\<rparr>],
           mount = 0, pending = []\<rparr>,
          \<lparr>trace = [Fetch (chat_request (JStr ''t'') (JStr ''Hello''))], localStorage = Map.empty\<rparr>) \<and>
   chat_run (JStr ''t'')
      [ClickSend (1::nat), Answer 0 (Inl (Thrown TypeError ''Failed to fetch'')) 2]
      (\<lparr>chat_open = True, text' = ''Hello'', sending = False, messages = [], mount = 0, pending = []\<rparr>,
       \<lparr>trace = [], localStorage = Map.empty\<rparr>)
   = Inr (\<lparr>chat_open = True, text' = [], sending = False,
           messages = [\<lparr>msg_id = 1, role = ''user'', content = JStr ''Hello''\<rparr>,
                       \<lparr>msg_id = 2, role = ''assistant'', content = JStr ''Error: could not get response''\<rparr>],
           mount = 0, pending = []\<rparr>,
          \<lparr>trace = [Fetch (chat_request (JStr ''t'') (JStr ''Hello''))], localStorage = Map.empty\<rparr>)"
proof -
  let ?c = "\<lparr>chat_open = True, text' = ''Hello'', sending = False,
             messages = ([] :: nat chat_message list), mount = 0, pending = []\<rparr>"
  let ?e = "\<lparr>trace = [], localStorage = Map.empty\<rparr>"
  have th: "chat_open ?c" "\<not> sending ?c" "pending ?c = []" "messages ?c = []" "text' ?c \<noteq> []"
    "truthy (JStr ''t'')" by simp_all
  note both = send_from_empty [OF th, of 1 2 ?e]
  have a: "ok \<lparr>status = 200, statusText = ''OK'', json = Inr (JObj [(''reply'', JStr ''Hi there'')])\<rparr> \<and>
      json \<lparr>status = 200, statusText = ''OK'', json = Inr (JObj [(''reply'', JStr ''Hi there'')])\<rparr>
        = Inr (JObj [(''reply'', JStr ''Hi there'')]) \<and>
      map_of [(''reply'', JStr ''Hi there'')] ''reply'' = Some (JStr ''Hi there'')"
    by (simp add: ok_def)
  have b: "isl (Inl (Thrown TypeError ''Failed to fetch'') :: js_error + response) \<or>
      (\<exists>res. (Inl (Thrown TypeError ''Failed to fetch'') :: js_error + response) = Inr res \<and> \<not> ok res)"
    by simp
  from both [THEN conjunct1, rule_format, OF a] both [THEN conjunct2, rule_format, OF b]
  show ?thesis by (simp add: emit_def)
qed

lemma step_keeps_guard:
  assumes "chat_open c \<and> (pending c = [] \<or> (pending c = [mount c] \<and> sending c))"
    and "ev \<noteq> Toggle" and "chat_step tok ev (c, e) = Inr (c', e')"
  shows "chat_open c' \<and> (pending c' = [] \<or> (pending c' = [mount c'] \<and> sending c'))"
proof (cases ev)
  case (Type s)
  with assms show ?thesis by auto
next
  case (ClickSend i)
  with assms show ?thesis by (auto simp: send_start_def split: if_splits)
next
  case (Answer n out j)
  with assms show ?thesis
    by (auto simp: send_finish_def Let_def split: if_splits sum.splits)
next
  case Toggle
  with assms show ?thesis by simp
qed

lemma run_keeps_guard:
  assumes "chat_open c \<and> (pending c = [] \<or> (pending c = [mount c] \<and> sending c))"
    and "Toggle \<notin> set evs" and "chat_run tok evs (c, e) = Inr (c', e')"
  shows "chat_open c' \<and> (pending c' = [] \<or> (pending c' = [mount c'] \<and> sending c'))"
  using assms
proof (induction evs arbitrary: c e)
  case Nil
  then show ?case by simp
next
  case (Cons ev evs)
  from Cons.prems(3) obtain c1 e1 where
    s: "chat_step tok ev (c, e) = Inr (c1, e1)" and r: "chat_run tok evs (c1, e1) = Inr (c', e')"
    by (cases "chat_step tok ev (c, e)") auto
  from Cons.prems(2) have "ev \<noteq> Toggle" "Toggle \<notin> set evs" by auto
  from step_keeps_guard [OF Cons.prems(1) this(1) s] Cons.IH [OF _ this(2) r]
  show ?case by blast
qed

text \<open>
  C8, as the pane has it. A click on Send while the input is empty or while the
  \<open>sending\<close> flag of the ChatView on screen is set changes nothing: no entry is
  appended and no request is sent. As long as the pane has not been closed since it
  was open with nothing pending, a pending request implies that the flag is set, so
  a click while a request is outstanding changes nothing.
\<close>

theorem send_disabled_while_mounted:
  "(text' c = [] \<or> sending c \<longrightarrow> chat_step tok (ClickSend i) (c, e) = Inr (c, e)) \<and>
   (chat_open c0 \<and> pending c0 = [] \<and> Toggle \<notin> set evs \<and>
    chat_run tok evs (c0, e0) = Inr (c, e) \<and> pending c \<noteq> [] \<longrightarrow>
      sending c \<and> chat_step tok (ClickSend i) (c, e) = Inr (c, e))"
proof (intro conjI impI)
  assume "text' c = [] \<or> sending c"
  then show "chat_step tok (ClickSend i) (c, e) = Inr (c, e)"
    by (auto simp: send_start_def)
next
  assume h: "chat_open c0 \<and> pending c0 = [] \<and> Toggle \<notin> set evs \<and>
    chat_run tok evs (c0, e0) = Inr (c, e) \<and> pending c \<noteq> []"
  then have "chat_open c \<and> (pending c = [] \<or> (pending c = [mount c] \<and> sending c))"
    using run_keeps_guard [of c0 evs tok e0 c e] by blast
  with h show "sending c" by blast
  then show "chat_step tok (ClickSend i) (c, e) = Inr (c, e)" by simp
qed

text \<open>A click while the request for Hello is outstanding.\<close>

theorem send_disabled_while_mounted_witness:
  "chat_step (JStr ''t'') (ClickSend (2::nat))
     (\<lparr>chat_open = True, text' = ''again'', sending = True,
       messages = [\<lparr>msg_id = 1, role = ''user'', content = JStr ''Hello''\<rparr>], mount = 0, pending = [0]\<rparr>,
      \<lparr>trace = [Fetch (chat_request (JStr ''t'') (JStr ''Hello''))], localStorage = Map.empty\<rparr>)
   = Inr (\<lparr>chat_open = True, text' = ''again'', sending = True,
           messages = [\<lparr>msg_id = 1, role = ''user'', content = JStr ''Hello''\<rparr>], mount = 0, pending = [0]\<rparr>,
          \<lparr>trace = [Fetch (chat_request (JStr ''t'') (JStr ''Hello''))], localStorage = Map.empty\<rparr>)"
  using send_disabled_while_mounted [of
      "\<lparr>chat_open = True, text' = ''again'', sending = True,
        messages = [\<lparr>msg_id = 1::nat, role = ''user'', content = JStr ''Hello''\<rparr>], mount = 0, pending = [0]\<rparr>"
      "JStr ''t''" 2
      "\<lparr>trace = [Fetch (chat_request (JStr ''t'') (JStr ''Hello''))], localStorage = Map.empty\<rparr>"
      "\<lparr>chat_open = True, text' = [], sending = False, messages = [], mount = 0, pending = []\<rparr>"
      "[Type ''Hello'', ClickSend 1, Type ''again'']"
      "\<lparr>trace = [], localStorage = Map.empty\<rparr>"]
  by (simp add: send_start_def emit_def)

text \<open>
  C8 as stated fails: the flag belongs to the ChatView on screen. After Hello is sent
  the pane is closed and opened again while the request is still pending; the new
  ChatView starts with \<open>sending\<close> unset, and a click on Send with the input
  \<^verbatim>\<open>again\<close> appends a second user entry and sends a second request.
\<close>

theorem send_reopened_counterexample:
  "chat_run (JStr ''t'') [Type ''Hello'', ClickSend (1::nat), Toggle, Toggle, Type ''again'']
     (\<lparr>chat_open = True, text' = [], sending = False, messages = [], mount = 0, pending = []\<rparr>,
      \<lparr>trace = [], localStorage = Map.empty\<rparr>)
   = Inr (\<lparr>chat_open = True, text' = ''again'', sending = False,
           messages = [\<lparr>msg_id = 1, role = ''user'', content = JStr ''Hello''\<rparr>], mount = 1, pending = [0]\<rparr>,
          \<lparr>trace = [Fetch (chat_request (JStr ''t'') (JStr ''Hello''))], localStorage = Map.empty\<rparr>) \<and>
   chat_run (JStr ''t'') [Type ''Hello'', ClickSend (1::nat), Toggle, Toggle, Type ''again'', ClickSend 2]
     (\<lparr>chat_open = True, text' = [], sending = False, messages = [], mount = 0, pending = []\<rparr>,
      \<lparr>trace = [], localStorage = Map.empty\<rparr>)
   = Inr (\<lparr>chat_open = True, text' = [], sending = True,
           messages = [\<lparr>msg_id = 1, role = ''user'', content = JStr ''Hello''\<rparr>,
                       \<lparr>msg_id = 2, role = ''user'', content = JStr ''again''\<rparr>], mount = 1, pending = [0, 1]\<rparr>,
          \<lparr>trace = [Fetch (chat_request (JStr ''t'') (JStr ''Hello'')),
                    Fetch (chat_request (JStr ''t'') (JStr ''again''))], localStorage = Map.empty\<rparr>)"
  by (simp add: send_start_def emit_def)

end
